theory Spec2Isabelle
  imports
    Complex_Main
    "HOL-Library.Char_ord"
    "HOL-Library.List_Lexorder"
    "HOL-Library.Product_Lexorder"
    "HOL-Library.AList"
begin

section \<open>Burnout pipeline: data generator, feature engineering, predictor\<close>

text \<open>
  A shallow embedding of \<^verbatim>\<open>backend/data_generator.py\<close> and
  \<^verbatim>\<open>backend/ml_model.py\<close>.

  Numbers. Python floats are read as real numbers: every arithmetic step is exact, and
  \<^verbatim>\<open>np.round(x, d)\<close> is numpy's algorithm (scale by \<open>10^d\<close>, round half to even,
  scale back) on the exact value. Binary rounding error of IEEE doubles is outside this
  model: where the exact value lies on a decimal tie, or next to one, the double the code
  rounds may fall on the other side, and the code's result then differs from the model's by
  one unit of the last decimal kept. A quotient by a column is the exception: its result is
  a \<open>float64\<close>, which has a value for \<open>inf\<close>, \<open>-inf\<close> and \<open>nan\<close>. Integers are
  Python's unbounded ints; \<^verbatim>\<open>num_employees\<close> and \<^verbatim>\<open>num_days\<close> are natural numbers
  (a negative one gives the empty range, as 0 does).

  Tables. A pandas DataFrame in \<^verbatim>\<open>data_generator.py\<close> is a list of rows, each row a
  record of the columns the generator writes. The position of a row in the list is its
  index label (the merged frame has a fresh range index). Missing columns and missing values
  are excluded by the type, and the numeric columns are numpy arrays (\<open>float64\<close>,
  \<open>int64\<close>), as the generator builds them; \<open>division_error\<close> alone also looks at a
  table whose columns are of dtype \<open>object\<close>. The predictor addresses columns by name and
  may be given any frame; its frames are modelled by column, further down.

  Environment. The clock, numpy's random generator and scikit-learn are not code of the
  repository. The moment of a call is an argument; the generator and the library are
  parameters: records of the functions the code calls.
\<close>

subsection \<open>numpy helpers\<close>

text \<open>\<^verbatim>\<open>np.rint\<close>: the nearest integer, ties to the even one.\<close>

definition rint :: "real \<Rightarrow> int" where
  "rint x =
     (let f = \<lfloor>x\<rfloor>; d = x - of_int f in
      if d < 1 / 2 then f
      else if 1 / 2 < d then f + 1
      else if even f then f else f + 1)"

text \<open>\<^verbatim>\<open>np.round(x, decimals)\<close> for \<open>decimals \<ge> 0\<close>.\<close>

definition np_round :: "real \<Rightarrow> nat \<Rightarrow> real" where
  "np_round x decimals = of_int (rint (x * 10 ^ decimals)) / 10 ^ decimals"

text \<open>
  \<^verbatim>\<open>np.select(condlist, choicelist, default)\<close> at one row: the choice of the first
  condition that holds, the default when none does.
\<close>

fun np_select :: "bool list \<Rightarrow> 'a list \<Rightarrow> 'a \<Rightarrow> 'a" where
  "np_select (c # cs) (v # vs) d = (if c then v else np_select cs vs d)"
| "np_select _ _ d = d"

text \<open>
  \<^verbatim>\<open>np.where(cond, a, b)\<close> at one row. Both arms are arguments: Python has evaluated them
  for every row before the selection is made.
\<close>

definition np_where :: "bool \<Rightarrow> 'a \<Rightarrow> 'a \<Rightarrow> 'a" where
  "np_where c a b = (if c then a else b)"

text \<open>
  A \<open>float64\<close> that may not be finite: \<open>None\<close> stands for \<open>inf\<close>, \<open>-inf\<close> and
  \<open>nan\<close>. The quotient of two \<open>float64\<close> arrays at one row follows IEEE 754: a division
  by zero raises nothing and gives \<open>inf\<close>, \<open>-inf\<close> or \<open>nan\<close>. Sums, differences,
  products with a finite factor other than zero, and \<^verbatim>\<open>np.round\<close> of a value that is not
  finite are not finite: \<open>np_add\<close> is the sum, \<open>np_lift f\<close> such an operation \<open>f\<close> of one
  argument.
\<close>

type_synonym float64 = "real option"

definition np_divide :: "real \<Rightarrow> real \<Rightarrow> float64" where
  "np_divide a b = (if b = 0 then None else Some (a / b))"

definition np_add :: "float64 \<Rightarrow> float64 \<Rightarrow> float64" where
  "np_add x y = (case (x, y) of (Some a, Some b) \<Rightarrow> Some (a + b) | _ \<Rightarrow> None)"

definition np_lift :: "(real \<Rightarrow> real) \<Rightarrow> float64 \<Rightarrow> float64" where
  "np_lift f x = map_option f x"

subsection \<open>Exceptions\<close>

text \<open>
  Exceptions as values: those Python and pandas raise in the code of the repository, by
  class and message or key, and \<open>Sklearn\<close> for an exception raised inside a call of
  scikit-learn, by its text.
\<close>

datatype error =
    KeyError string
  | ValueError string
  | AttributeError string
  | IndexError string
  | TypeError string
  | ZeroDivisionError string
  | Sklearn string

subsection \<open>Rows\<close>

text \<open>
  The dictionaries \<^verbatim>\<open>generate_employee_data\<close> builds: one per employee, one per
  employee and working day. A date is its proleptic Gregorian ordinal
  (\<^verbatim>\<open>date.toordinal()\<close>). Both have an \<open>employee_id\<close>; the unqualified name is the
  one of the daily row and of the frames that extend it.
\<close>

record employee =
  employee_id :: string
  name :: string
  department :: string
  role :: string
  tenure_years :: real
  skill_level :: real

record daily =
  employee_id :: string
  date :: int
  total_active_hours :: real
  num_meetings :: int
  focus_hours :: real
  sleep_hours :: real
  stress_score :: real
  steps :: int
  after_hours_work :: real

text \<open>
  The columns of the merged frame (\<^verbatim>\<open>daily_df.merge(employees_df, on='employee_id')\<close>):
  those of the daily row, then those of the employee but the key.
\<close>

record raw_row = daily +
  name :: string
  department :: string
  role :: string
  tenure_years :: real
  skill_level :: real

text \<open>The frame \<^verbatim>\<open>engineer_features\<close> returns: the same columns and the nine derived ones.\<close>

record feat_row = raw_row +
  workload_index :: real
  wellness_index :: real
  meeting_burden :: float64
  avg_workload_7d :: real
  avg_wellness_7d :: real
  sleep_variance_7d :: real
  burnout_risk_index :: real
  burnout_category :: string
  productivity_index :: float64

subsection \<open>Row-wise columns of \<^verbatim>\<open>engineer_features\<close>\<close>

definition workload_index_of :: "raw_row \<Rightarrow> real" where
  "workload_index_of r =
     np_round (total_active_hours r * 0.4
               + of_int (num_meetings r) * 0.3
               + after_hours_work r * 0.3) 2"

definition wellness_index_of :: "raw_row \<Rightarrow> real" where
  "wellness_index_of r =
     np_round (np_where (sleep_hours r \<ge> 7) 1.0 (sleep_hours r / 7) * 0.5
               + (1 - stress_score r) * 0.5) 2"

text \<open>
  The quotient is computed for every row, also where the hours are zero; the selection then
  takes 0 there.
\<close>

definition meeting_burden_of :: "raw_row \<Rightarrow> float64" where
  "meeting_burden_of r =
     np_lift (\<lambda>v. np_round v 2)
       (np_where (total_active_hours r > 0)
          (np_divide (of_int (num_meetings r) * 0.5) (total_active_hours r))
          (Some 0))"

definition burnout_risk_index_of :: "real \<Rightarrow> real \<Rightarrow> real \<Rightarrow> real" where
  "burnout_risk_index_of workload wellness avg_workload =
     np_round (np_select
       [workload > 8 \<and> wellness < 0.5,
        workload > 7 \<and> wellness < 0.6,
        avg_workload > 7]
       [0.9, 0.75, 0.65]
       (workload / 10 * 0.4 + (1 - wellness) * 0.6)) 2"

definition burnout_category_of :: "real \<Rightarrow> string" where
  "burnout_category_of risk =
     np_select [risk \<ge> 0.7, risk \<ge> 0.5] [''High'', ''Medium''] ''Low''"

definition productivity_index_of :: "raw_row \<Rightarrow> float64 \<Rightarrow> float64" where
  "productivity_index_of r burden =
     np_lift (\<lambda>v. np_round v 2)
       (np_add
          (np_add
             (np_lift (\<lambda>q. q * 0.5)
                (np_where (total_active_hours r > 0)
                   (np_divide (focus_hours r) (total_active_hours r))
                   (Some 0)))
             (Some (skill_level r * 0.3)))
          (np_lift (\<lambda>b. (1 - b) * 0.2) burden))"

subsection \<open>Division errors\<close>







subsection \<open>Rolling windows per employee\<close>

text \<open>
  \<^verbatim>\<open>Series.rolling(window=w, min_periods=1)\<close> followed by an aggregate: at position \<open>j\<close>
  the aggregate of the last \<open>w\<close> entries up to and including \<open>j\<close>. The window always holds
  the entry at \<open>j\<close>, so \<open>min_periods=1\<close> is met at every position.
\<close>

definition window_at :: "nat \<Rightarrow> 'v list \<Rightarrow> nat \<Rightarrow> 'v list" where
  "window_at w xs j = drop (Suc j - w) (take (Suc j) xs)"

definition rolling :: "nat \<Rightarrow> ('v list \<Rightarrow> 'b) \<Rightarrow> 'v list \<Rightarrow> 'b list" where
  "rolling w agg xs = map (\<lambda>j. agg (window_at w xs j)) [0..<length xs]"

text \<open>
  \<^verbatim>\<open>df.groupby(key)[col].rolling(...).agg().reset_index(level=0, drop=True)\<close>, read back at
  the row in position \<open>i\<close> of \<open>df\<close>: the group of that row is the rows of \<open>df\<close> with its
  key, in the order of \<open>df\<close>; the value is the rolling aggregate of the group's column at
  the row's place in its group.
\<close>

definition groupby_rolling_at ::
    "('r \<Rightarrow> 'k) \<Rightarrow> ('r \<Rightarrow> 'v) \<Rightarrow> nat \<Rightarrow> ('v list \<Rightarrow> 'b) \<Rightarrow> 'r list \<Rightarrow> nat \<Rightarrow> 'b" where
  "groupby_rolling_at key col w agg df i =
     (let k = key (df ! i);
          grp = filter (\<lambda>r. key r = k) df;
          j = length (filter (\<lambda>r. key r = k) (take i df))
      in rolling w agg (map col grp) ! j)"

definition mean :: "real list \<Rightarrow> real" where
  "mean xs = sum_list xs / of_nat (length xs)"

text \<open>
  The rolling sample standard deviation (\<open>ddof = 1\<close>): undefined (\<open>NaN\<close>, here
  \<open>None\<close>) on fewer than two observations.
\<close>

definition std :: "real list \<Rightarrow> real option" where
  "std xs =
     (if length xs < 2 then None
      else Some (sqrt (sum_list (map (\<lambda>x. (x - mean xs)\<^sup>2) xs) / of_nat (length xs - 1))))"

definition fillna :: "'a \<Rightarrow> 'a option \<Rightarrow> 'a" where
  "fillna d v = (case v of None \<Rightarrow> d | Some x \<Rightarrow> x)"

subsection \<open>\<^verbatim>\<open>engineer_features\<close>\<close>

text \<open>
  \<^verbatim>\<open>df.sort_values(by=['employee_id', 'date'])\<close>: a stable sort on the pair of keys
  (pandas sorts on several keys with a stable lexicographic sorter). Strings compare as
  Python's do, by code point and then by length.
\<close>

definition sort_values :: "raw_row list \<Rightarrow> raw_row list" where
  "sort_values df = sort_key (\<lambda>r. (employee_id r, date r)) df"

text \<open>The row in position \<open>i\<close> of the sorted frame, with every derived column.\<close>

definition engineer_row :: "raw_row list \<Rightarrow> nat \<Rightarrow> feat_row" where
  "engineer_row df i =
     (let r = df ! i;
          workload = workload_index_of r;
          wellness = wellness_index_of r;
          burden = meeting_burden_of r;
          avg_workload =
            np_round (groupby_rolling_at employee_id workload_index_of 7 mean df i) 2;
          avg_wellness =
            np_round (groupby_rolling_at employee_id wellness_index_of 7 mean df i) 2;
          sleep_variance =
            np_round (fillna 0 (groupby_rolling_at employee_id sleep_hours 7 std df i)) 2;
          risk = burnout_risk_index_of workload wellness avg_workload
      in raw_row.extend r
           (feat_row.fields workload wellness burden avg_workload avg_wellness sleep_variance
              risk (burnout_category_of risk) (productivity_index_of r burden)))"

definition engineer_features :: "raw_row list \<Rightarrow> feat_row list" where
  "engineer_features df =
     (let df = sort_values df in map (engineer_row df) [0..<length df])"

subsection \<open>Example tables\<close>

text \<open>
  Four rows of three employees, out of order: the first employee's two days are swapped
  and another employee's row stands between them.
\<close>

definition demo :: "raw_row list" where
  "demo =
    [\<lparr>employee_id = ''EMP001'', date = 739258, total_active_hours = 12.5, num_meetings = 0,
      focus_hours = 12.5, sleep_hours = 7, stress_score = 0.4, steps = 7000,
      after_hours_work = 0, name = ''Employee_1'', department = ''Sales'', role = ''Mid'',
      tenure_years = 2.5, skill_level = 0.8\<rparr>,
     \<lparr>employee_id = ''EMP000'', date = 739257, total_active_hours = 12, num_meetings = 10,
      focus_hours = 7, sleep_hours = 4.2, stress_score = 1, steps = 5200,
      after_hours_work = 4, name = ''Employee_0'', department = ''Engineering'', role = ''Lead'',
      tenure_years = 6.1, skill_level = 0.9\<rparr>,
     \<lparr>employee_id = ''EMP001'', date = 739257, total_active_hours = 2.5, num_meetings = 0,
      focus_hours = 2.5, sleep_hours = 7, stress_score = 0.4, steps = 7000,
      after_hours_work = 0, name = ''Employee_1'', department = ''Sales'', role = ''Mid'',
      tenure_years = 2.5, skill_level = 0.8\<rparr>,
     \<lparr>employee_id = ''EMP002'', date = 739257, total_active_hours = 0, num_meetings = 3,
      focus_hours = 1, sleep_hours = 8, stress_score = 0.2, steps = 9000,
      after_hours_work = 0, name = ''Employee_2'', department = ''HR'', role = ''Junior'',
      tenure_years = 0.5, skill_level = 0.6\<rparr>]"

text \<open>
  One employee over four consecutive days: three light days, then a day with fourteen
  active hours, fifty meetings and six hours of work after hours.
\<close>

definition quiet_day :: "int \<Rightarrow> raw_row" where
  "quiet_day d =
    \<lparr>employee_id = ''EMP000'', date = d, total_active_hours = 4, num_meetings = 0,
      focus_hours = 4, sleep_hours = 7, stress_score = 0.8, steps = 7000,
      after_hours_work = 0, name = ''Employee_0'', department = ''Engineering'', role = ''Lead'',
      tenure_years = 6.1, skill_level = 0.9\<rparr>"

definition overload :: "raw_row list" where
  "overload =
    [quiet_day 739257, quiet_day 739258, quiet_day 739259,
     (quiet_day 739260)\<lparr>total_active_hours := 14, num_meetings := 50, after_hours_work := 6\<rparr>]"

text \<open>The rows of one employee, in the order of the table.\<close>

definition rows_of :: "string \<Rightarrow> 'a raw_row_scheme list \<Rightarrow> 'a raw_row_scheme list" where
  "rows_of a df = filter (\<lambda>r. employee_id r = a) df"

text \<open>
  The example table with the rows of the other employees removed, a row of a further
  employee put between the two rows of \<open>EMP001\<close>, and those two rows kept in place.
\<close>

definition demo_other :: "raw_row list" where
  "demo_other =
    [demo ! 0,
     \<lparr>employee_id = ''EMP007'', date = 739258, total_active_hours = 9, num_meetings = 12,
      focus_hours = 3, sleep_hours = 5, stress_score = 0.9, steps = 3000,
      after_hours_work = 1, name = ''Employee_7'', department = ''Operations'', role = ''Senior'',
      tenure_years = 4, skill_level = 0.7\<rparr>,
     demo ! 2]"

section \<open>The data generator\<close>

subsection \<open>The random generator and the clock\<close>

text \<open>
  \<^verbatim>\<open>np.random\<close> is numpy's global generator. Its algorithm is not part of the
  repository: the state is a type parameter and the draws the code makes are parameters, each
  a function of the state that returns the value drawn and the next state.
\<close>

record 'g np_random =
  seed :: "nat \<Rightarrow> 'g"
  choice :: "string list \<Rightarrow> 'g \<Rightarrow> string \<times> 'g"
  uniform :: "real \<Rightarrow> real \<Rightarrow> 'g \<Rightarrow> real \<times> 'g"
  normal :: "real \<Rightarrow> real \<Rightarrow> 'g \<Rightarrow> real \<times> 'g"
  poisson :: "real \<Rightarrow> 'g \<Rightarrow> nat \<times> 'g"
  beta :: "real \<Rightarrow> real \<Rightarrow> 'g \<Rightarrow> real \<times> 'g"

text \<open>
  A \<^verbatim>\<open>datetime\<close>: the ordinal of its calendar day and the time within the day, in
  microseconds. \<^verbatim>\<open>datetime.now()\<close> is an input of the model.
\<close>

record datetime =
  toordinal :: int
  time_of_day :: nat

text \<open>\<^verbatim>\<open>d + timedelta(days=n)\<close>; \<^verbatim>\<open>d - timedelta(days=n)\<close> is \<open>plus_days d (- n)\<close>.\<close>

definition plus_days :: "datetime \<Rightarrow> int \<Rightarrow> datetime" where
  "plus_days d n = d\<lparr>toordinal := toordinal d + n\<rparr>"

text \<open>\<^verbatim>\<open>d.weekday()\<close>: Monday is 0; ordinal 1 (1 January of year 1) is a Monday.\<close>

definition weekday :: "datetime \<Rightarrow> int" where
  "weekday d = (toordinal d + 6) mod 7"

subsection \<open>Formatting\<close>

text \<open>\<^verbatim>\<open>str(n)\<close> for a natural number, and \<^verbatim>\<open>f'{n:03d}'\<close>.\<close>

definition digit_char :: "nat \<Rightarrow> char" where
  "digit_char d = ''0123456789'' ! d"

fun str_nat :: "nat \<Rightarrow> string" where
  "str_nat n =
     (if n < 10 then [digit_char n] else str_nat (n div 10) @ [digit_char (n mod 10)])"

declare str_nat.simps [simp del]

definition format_03d :: "nat \<Rightarrow> string" where
  "format_03d n = (let s = str_nat n in replicate (3 - length s) CHR ''0'' @ s)"

text \<open>\<^verbatim>\<open>int(x)\<close> on a float: truncation towards zero.\<close>

definition py_int :: "real \<Rightarrow> int" where
  "py_int x = (if 0 \<le> x then \<lfloor>x\<rfloor> else \<lceil>x\<rceil>)"

subsection \<open>\<^verbatim>\<open>generate_employee_data\<close>\<close>

definition departments :: "string list" where
  "departments = [''Engineering'', ''Sales'', ''Marketing'', ''HR'', ''Operations'']"

text \<open>The body of the first loop: the dictionary of employee \<open>i\<close>, its draws in order.\<close>

definition make_employee :: "'g np_random \<Rightarrow> nat \<Rightarrow> 'g \<Rightarrow> employee \<times> 'g" where
  "make_employee rng i g =
     (let (dept, g) = choice rng departments g;
          (rl, g) = choice rng [''Junior'', ''Mid'', ''Senior'', ''Lead''] g;
          (tenure, g) = uniform rng 0.5 8 g;
          (skill, g) = uniform rng 0.6 1.0 g
      in (\<lparr>employee.employee_id = ''EMP'' @ format_03d i,
           employee.name = ''Employee_'' @ str_nat i,
           employee.department = dept,
           employee.role = rl,
           employee.tenure_years = np_round tenure 1,
           employee.skill_level = np_round skill 2\<rparr>, g))"

fun employees_loop :: "'g np_random \<Rightarrow> nat list \<Rightarrow> 'g \<Rightarrow> employee list \<times> 'g" where
  "employees_loop rng [] g = ([], g)"
| "employees_loop rng (i # is) g =
     (let (e, g) = make_employee rng i g;
          (es, g) = employees_loop rng is g
      in (e # es, g))"

text \<open>The row of one employee on one working day, its draws in order.\<close>

definition make_daily :: "'g np_random \<Rightarrow> employee \<Rightarrow> datetime \<Rightarrow> 'g \<Rightarrow> daily \<times> 'g" where
  "make_daily rng emp dt g =
     (let (base_workload, g) = normal rng 6 2 g;
          (meetings, g) = poisson rng 5 g;
          (x, g) = normal rng 7 1 g;
          sleep = max 4 (min 10 x);
          (y, g) = beta rng 2 5 g;
          stress = min 1 (max 0 y);
          (z, g) = normal rng 7000 2000 g
      in (\<lparr>employee_id = employee.employee_id emp,
           date = toordinal dt,
           total_active_hours = np_round (max 4 (min 14 base_workload)) 2,
           num_meetings = int meetings,
           focus_hours = np_round (max 1 (base_workload - of_nat meetings * 0.5)) 2,
           sleep_hours = np_round sleep 1,
           stress_score = np_round stress 2,
           steps = py_int z,
           after_hours_work = np_round (max 0 (base_workload - 8)) 1\<rparr>, g))"

text \<open>\<^verbatim>\<open>for day in range(num_days)\<close>, for one employee: weekdays only.\<close>

fun days_loop ::
    "'g np_random \<Rightarrow> employee \<Rightarrow> datetime \<Rightarrow> nat list \<Rightarrow> 'g \<Rightarrow> daily list \<times> 'g" where
  "days_loop rng emp start_date [] g = ([], g)"
| "days_loop rng emp start_date (day # days) g =
     (let dt = plus_days start_date (int day) in
      if weekday dt < 5 then
        (let (row, g) = make_daily rng emp dt g;
             (rows, g) = days_loop rng emp start_date days g
         in (row # rows, g))
      else days_loop rng emp start_date days g)"

text \<open>\<^verbatim>\<open>for emp in employees\<close>.\<close>

fun daily_loop ::
    "'g np_random \<Rightarrow> datetime \<Rightarrow> nat \<Rightarrow> employee list \<Rightarrow> 'g \<Rightarrow> daily list \<times> 'g" where
  "daily_loop rng start_date num_days [] g = ([], g)"
| "daily_loop rng start_date num_days (emp # emps) g =
     (let (rows, g) = days_loop rng emp start_date [0..<num_days] g;
          (more, g) = daily_loop rng start_date num_days emps g
      in (rows @ more, g))"

text \<open>
  \<^verbatim>\<open>daily_df.merge(employees_df, on='employee_id')\<close>: the inner join, in the order of the
  daily rows, each with every employee of its key. A frame built from an empty list has no
  columns, so the join raises \<^verbatim>\<open>KeyError\<close> when no daily row was generated.
\<close>

definition merge_row :: "daily \<Rightarrow> employee \<Rightarrow> raw_row" where
  "merge_row d e =
     daily.extend d
       (raw_row.fields (employee.name e) (employee.department e) (employee.role e)
          (employee.tenure_years e) (employee.skill_level e))"

definition merge :: "daily list \<Rightarrow> employee list \<Rightarrow> error + raw_row list" where
  "merge daily_data employees =
     (if daily_data = [] \<or> employees = [] then Inl (KeyError ''employee_id'')
      else Inr (concat (map (\<lambda>d. map (merge_row d)
                  (filter (\<lambda>e. employee.employee_id e = employee_id d) employees))
                daily_data)))"

text \<open>
  The function: \<open>now\<close> is what \<^verbatim>\<open>datetime.now()\<close> returns during the call and \<open>g\<close> the
  state of numpy's global generator when the call starts. It returns the engineered table,
  or the exception, and the state of the generator it leaves behind.
\<close>

definition generate_employee_data ::
    "'g np_random \<Rightarrow> datetime \<Rightarrow> nat \<Rightarrow> nat \<Rightarrow> 'g \<Rightarrow> (error + feat_row list) \<times> 'g" where
  "generate_employee_data rng now num_employees num_days g =
     (let g = seed rng 42;
          (employees, g) = employees_loop rng [0..<num_employees] g;
          start_date = plus_days now (- int num_days);
          (daily_data, g) = daily_loop rng start_date num_days employees g
      in (case merge daily_data employees of
            Inl e \<Rightarrow> Inl e
          | Inr features_df \<Rightarrow> Inr (engineer_features features_df), g))"

subsection \<open>A small generator for examples\<close>

text \<open>
  A stand-in for numpy's generator with a counter as its state: each draw depends on the
  counter and advances it.
\<close>

definition counter_rng :: "nat np_random" where
  "counter_rng =
     \<lparr>seed = (\<lambda>s. s),
      choice = (\<lambda>xs g. (xs ! (g mod length xs), Suc g)),
      uniform = (\<lambda>lo hi g. (lo + (hi - lo) * of_nat (g mod 4) / 4, Suc g)),
      normal = (\<lambda>mu sigma g. (mu + sigma * (of_nat (g mod 5) - 2) / 2, Suc g)),
      poisson = (\<lambda>lam g. (nat \<lfloor>lam\<rfloor> + g mod 3, Suc g)),
      beta = (\<lambda>a b g. (a / (a + b), Suc g))\<rparr>"

text \<open>Two moments: Tuesday 7 January 2025 and Wednesday 8 January 2025, both at 09:30.\<close>

definition tuesday :: datetime where
  "tuesday = \<lparr>toordinal = 739258, time_of_day = 34200000000\<rparr>"

definition wednesday :: datetime where
  "wednesday = \<lparr>toordinal = 739259, time_of_day = 34200000000\<rparr>"

section \<open>The predictor\<close>

subsection \<open>Data frames by column\<close>

text \<open>
  The predictor reads and writes columns by name, so here a DataFrame is its row count and
  its columns in order, each a name and the cells of the column. pandas keeps every column
  as long as the index; \<open>wf_frame\<close> states it. A cell is a number, a string or the
  missing value.
\<close>

datatype cell = Num real | Str string | NaN

record frame =
  nrows :: nat
  columns :: "(string \<times> cell list) list"

definition wf_frame :: "frame \<Rightarrow> bool" where
  "wf_frame df = list_all (\<lambda>(c, vs). length vs = nrows df) (columns df)"

text \<open>\<^verbatim>\<open>df[c]\<close>: the column, \<^verbatim>\<open>KeyError\<close> when there is none of that name.\<close>

definition getitem :: "frame \<Rightarrow> string \<Rightarrow> error + cell list" where
  "getitem df c =
     (case map_of (columns df) c of None \<Rightarrow> Inl (KeyError c) | Some vs \<Rightarrow> Inr vs)"

text \<open>\<^verbatim>\<open>df[cs]\<close> for a list of names: the columns in the order asked for.\<close>

fun getitems :: "frame \<Rightarrow> string list \<Rightarrow> error + cell list list" where
  "getitems df [] = Inr []"
| "getitems df (c # cs) =
     (case getitem df c of
        Inl e \<Rightarrow> Inl e
      | Inr vs \<Rightarrow> (case getitems df cs of Inl e \<Rightarrow> Inl e | Inr vss \<Rightarrow> Inr (vs # vss)))"

text \<open>The selected columns as the matrix of rows an estimator is given.\<close>

definition to_rows :: "nat \<Rightarrow> cell list list \<Rightarrow> cell list list" where
  "to_rows n cols = map (\<lambda>i. map (\<lambda>col. col ! i) cols) [0..<n]"

text \<open>
  \<^verbatim>\<open>df[c] = values\<close>: an existing column of that name is replaced where it stands, a new
  one is added last; \<^verbatim>\<open>ValueError\<close> when the values are not as many as the rows.
  \<^verbatim>\<open>df[c] = scalar\<close> fills the column with the scalar.
\<close>

definition setitem :: "frame \<Rightarrow> string \<Rightarrow> cell list \<Rightarrow> error + frame" where
  "setitem df c vs =
     (if length vs \<noteq> nrows df
      then Inl (ValueError ''Length of values does not match length of index'')
      else Inr (df\<lparr>columns := AList.update c vs (columns df)\<rparr>))"

definition setitem_scalar :: "frame \<Rightarrow> string \<Rightarrow> cell \<Rightarrow> frame" where
  "setitem_scalar df c v = df\<lparr>columns := AList.update c (replicate (nrows df) v) (columns df)\<rparr>"

text \<open>
  \<^verbatim>\<open>df.dropna(subset=[c]).copy()\<close>: the rows whose cell in column \<open>c\<close> is not missing,
  as a new frame.
\<close>

definition dropna :: "frame \<Rightarrow> string \<Rightarrow> error + frame" where
  "dropna df c =
     (case getitem df c of
        Inl e \<Rightarrow> Inl e
      | Inr vs \<Rightarrow>
          (let keep = map (\<lambda>v. v \<noteq> NaN) vs in
           Inr \<lparr>nrows = length (filter id keep),
                columns = map (\<lambda>(n, cells). (n, map fst (filter snd (zip cells keep))))
                              (columns df)\<rparr>))"

text \<open>Frames live in a store; a variable holds the address of its frame.\<close>

type_synonym ref = nat
type_synonym store = "ref \<Rightarrow> frame"

subsection \<open>scikit-learn\<close>

text \<open>
  scikit-learn is not part of the repository. What the predictor calls is a parameter: the
  fitted state of an encoder, a scaler and a forest are type parameters \<open>'e\<close>, \<open>'s\<close> and
  \<open>'m\<close>, and every call is a function that returns its result or the text of the
  exception it raises.
  \<^verbatim>\<open>RandomForestClassifier.fit\<close> is given the matrix the scaler returned and the labels
  the encoder produced, and is taken to return the fitted forest; prediction is taken to
  return its arrays.
\<close>

record ('e, 's, 'm) sklearn =
  le_fit_transform :: "cell list \<Rightarrow> string + 'e \<times> nat list"
  le_classes :: "'e \<Rightarrow> cell list"
  le_inverse_transform :: "'e \<Rightarrow> nat list \<Rightarrow> string + cell list"
  train_test_split ::
    "cell list list \<Rightarrow> nat list
      \<Rightarrow> string + cell list list \<times> cell list list \<times> nat list \<times> nat list"
  ss_fit_transform :: "cell list list \<Rightarrow> string + 's \<times> real list list"
  ss_transform :: "'s \<Rightarrow> cell list list \<Rightarrow> string + real list list"
  rf_fit :: "real list list \<Rightarrow> nat list \<Rightarrow> 'm"
  rf_predict :: "'m \<Rightarrow> real list list \<Rightarrow> nat list"
  rf_predict_proba :: "'m \<Rightarrow> real list list \<Rightarrow> real list list"

text \<open>An estimator object: as constructed, or fitted.\<close>

datatype 'a estimator = Unfitted | Fitted 'a

subsection \<open>\<^verbatim>\<open>BurnoutPredictor\<close>\<close>

text \<open>The fields of the object; \<open>None\<close> is Python's \<^verbatim>\<open>None\<close>.\<close>

record ('e, 's, 'm) predictor =
  model :: "'m estimator option"
  scaler :: "'s estimator option"
  label_encoder :: "'e estimator option"
  feature_cols :: "string list"

text \<open>\<^verbatim>\<open>BurnoutPredictor()\<close>.\<close>

definition BurnoutPredictor :: "('e, 's, 'm) predictor" where
  "BurnoutPredictor =
     \<lparr>model = None, scaler = None, label_encoder = None,
      feature_cols =
        [''workload_index'', ''wellness_index'', ''meeting_burden'',
         ''num_meetings'', ''focus_hours'', ''sleep_hours'', ''stress_score'',
         ''after_hours_work'', ''avg_workload_7d'', ''avg_wellness_7d'',
         ''sleep_variance_7d'', ''tenure_years'', ''skill_level'']\<rparr>"

text \<open>
  \<^verbatim>\<open>train\<close> returns \<open>self\<close> or raises; either way the object keeps the assignments made
  so far. The result is the outcome and the object after the call. The input frame is not
  changed: \<^verbatim>\<open>dropna(...).copy()\<close> works on a copy.
\<close>

definition train ::
    "('e, 's, 'm) sklearn \<Rightarrow> ('e, 's, 'm) predictor \<Rightarrow> frame
      \<Rightarrow> (error + unit) \<times> ('e, 's, 'm) predictor" where
  "train sk self features_df =
     (case dropna features_df ''avg_workload_7d'' of
        Inl e \<Rightarrow> (Inl e, self)
      | Inr training_df \<Rightarrow>
     let self = self\<lparr>label_encoder := Some Unfitted\<rparr> in
     (case getitem training_df ''burnout_category'' of
        Inl e \<Rightarrow> (Inl e, self)
      | Inr categories \<Rightarrow>
     (case le_fit_transform sk categories of
        Inl e \<Rightarrow> (Inl (Sklearn e), self)
      | Inr (enc, labels) \<Rightarrow>
     let self = self\<lparr>label_encoder := Some (Fitted enc)\<rparr> in
     (case setitem training_df ''label'' (map (\<lambda>l. Num (of_nat l)) labels) of
        Inl e \<Rightarrow> (Inl e, self)
      | Inr training_df \<Rightarrow>
     (case getitems training_df (feature_cols self) of
        Inl e \<Rightarrow> (Inl e, self)
      | Inr X \<Rightarrow>
     (case train_test_split sk (to_rows (nrows training_df) X) labels of
        Inl e \<Rightarrow> (Inl (Sklearn e), self)
      | Inr (X_train, X_test, y_train, y_test) \<Rightarrow>
     let self = self\<lparr>scaler := Some Unfitted\<rparr> in
     (case ss_fit_transform sk X_train of
        Inl e \<Rightarrow> (Inl (Sklearn e), self)
      | Inr (sc, X_train_scaled) \<Rightarrow>
     let self = self\<lparr>scaler := Some (Fitted sc)\<rparr>;
         self = self\<lparr>model := Some Unfitted\<rparr>;
         self = self\<lparr>model := Some (Fitted (rf_fit sk X_train_scaled y_train))\<rparr>
     in (Inr (), self))))))))"

text \<open>\<^verbatim>\<open>list(xs).index(x)\<close> for an \<open>x\<close> that is in \<open>xs\<close>.\<close>

definition index_of :: "'a list \<Rightarrow> 'a \<Rightarrow> nat" where
  "index_of xs x = length (takeWhile (\<lambda>y. y \<noteq> x) xs)"

text \<open>\<^verbatim>\<open>a[:, k]\<close> on a two-dimensional array.\<close>

definition column_at :: "real list list \<Rightarrow> nat \<Rightarrow> error + real list" where
  "column_at a k =
     (if list_all (\<lambda>row. k < length row) a then Inr (map (\<lambda>row. row ! k) a)
      else Inl (IndexError ''index is out of bounds for axis 1''))"

text \<open>
  \<^verbatim>\<open>predict\<close> is given the address of the caller's frame. It returns that address or
  raises, and the store after the call.
\<close>

definition predict ::
    "('e, 's, 'm) sklearn \<Rightarrow> ('e, 's, 'm) predictor \<Rightarrow> ref \<Rightarrow> store
      \<Rightarrow> (error + ref) \<times> store" where
  "predict sk self features_df st =
     (case model self of
        None \<Rightarrow> (Inl (ValueError ''Model not trained yet''), st)
      | Some mdl \<Rightarrow>
     (case getitems (st features_df) (feature_cols self) of
        Inl e \<Rightarrow> (Inl e, st)
      | Inr X \<Rightarrow>
     (case scaler self of
        None \<Rightarrow> (Inl (AttributeError ''transform''), st)
      | Some Unfitted \<Rightarrow> (Inl (Sklearn ''NotFittedError: StandardScaler''), st)
      | Some (Fitted sc) \<Rightarrow>
     (case ss_transform sk sc (to_rows (nrows (st features_df)) X) of
        Inl e \<Rightarrow> (Inl (Sklearn e), st)
      | Inr X_scaled \<Rightarrow>
     (case mdl of
        Unfitted \<Rightarrow> (Inl (Sklearn ''NotFittedError: RandomForestClassifier''), st)
      | Fitted forest \<Rightarrow>
     let predictions = rf_predict sk forest X_scaled;
         predictions_proba = rf_predict_proba sk forest X_scaled in
     (case label_encoder self of
        None \<Rightarrow> (Inl (AttributeError ''inverse_transform''), st)
      | Some Unfitted \<Rightarrow> (Inl (Sklearn ''NotFittedError: LabelEncoder''), st)
      | Some (Fitted enc) \<Rightarrow>
     (case le_inverse_transform sk enc predictions of
        Inl e \<Rightarrow> (Inl (Sklearn e), st)
      | Inr categories \<Rightarrow>
     (case setitem (st features_df) ''prediction_category'' categories of
        Inl e \<Rightarrow> (Inl e, st)
      | Inr df \<Rightarrow>
     let st = st(features_df := df) in
     if Str ''High'' \<in> set (le_classes sk enc) then
       (let high_class_index = index_of (le_classes sk enc) (Str ''High'') in
        case column_at predictions_proba high_class_index of
          Inl e \<Rightarrow> (Inl e, st)
        | Inr proba \<Rightarrow>
       (case setitem df ''prediction_proba_high'' (map Num proba) of
          Inl e \<Rightarrow> (Inl e, st)
        | Inr df \<Rightarrow> (Inr features_df, st(features_df := df))))
     else
       (Inr features_df,
        st(features_df := setitem_scalar df ''prediction_proba_high'' (Num 0.0)))))))))))"

subsection \<open>\<^verbatim>\<open>save\<close> and \<^verbatim>\<open>load\<close>\<close>

text \<open>
  The file holds the pickled dictionary. pickle's byte format is not modelled: the content
  of a file is the dictionary that was dumped, its values tagged with their class, and
  \<^verbatim>\<open>pickle.load\<close> returns it. A file system maps a path to the content of the file there.
\<close>

datatype ('e, 's, 'm) pyobj =
    PForest "'m estimator option"
  | PScaler "'s estimator option"
  | PEncoder "'e estimator option"
  | PStrList "string list"

type_synonym ('e, 's, 'm) blob = "(string \<times> ('e, 's, 'm) pyobj) list"
type_synonym ('e, 's, 'm) files = "string \<rightharpoonup> ('e, 's, 'm) blob"

definition save ::
    "('e, 's, 'm) predictor \<Rightarrow> string \<Rightarrow> ('e, 's, 'm) files \<Rightarrow> ('e, 's, 'm) files" where
  "save self filepath fs =
     fs(filepath \<mapsto>
       [(''model'', PForest (model self)),
        (''scaler'', PScaler (scaler self)),
        (''label_encoder'', PEncoder (label_encoder self)),
        (''feature_cols'', PStrList (feature_cols self))])"

text \<open>
  \<^verbatim>\<open>load\<close> does nothing when the file does not exist. The fields of the record are typed,
  so a dictionary whose value under a key is of another class than \<^verbatim>\<open>save\<close> writes there
  has no image in the model; \<open>load\<close> stops with \<open>TypeError\<close> on it.
\<close>

definition load ::
    "('e, 's, 'm) predictor \<Rightarrow> string \<Rightarrow> ('e, 's, 'm) files
      \<Rightarrow> (error + unit) \<times> ('e, 's, 'm) predictor" where
  "load self filepath fs =
     (case fs filepath of
        None \<Rightarrow> (Inr (), self)
      | Some data \<Rightarrow>
     (case map_of data ''model'' of
        None \<Rightarrow> (Inl (KeyError ''model''), self)
      | Some (PForest m) \<Rightarrow>
         (let self = self\<lparr>model := m\<rparr> in
          case map_of data ''scaler'' of
            None \<Rightarrow> (Inl (KeyError ''scaler''), self)
          | Some (PScaler s) \<Rightarrow>
             (let self = self\<lparr>scaler := s\<rparr> in
              case map_of data ''label_encoder'' of
                None \<Rightarrow> (Inl (KeyError ''label_encoder''), self)
              | Some (PEncoder e) \<Rightarrow>
                 (let self = self\<lparr>label_encoder := e\<rparr> in
                  case map_of data ''feature_cols'' of
                    None \<Rightarrow> (Inl (KeyError ''feature_cols''), self)
                  | Some (PStrList cs) \<Rightarrow> (Inr (), self\<lparr>feature_cols := cs\<rparr>)
                  | Some _ \<Rightarrow> (Inl (TypeError ''feature_cols''), self))
              | Some _ \<Rightarrow> (Inl (TypeError ''label_encoder''), self))
          | Some _ \<Rightarrow> (Inl (TypeError ''scaler''), self))
      | Some _ \<Rightarrow> (Inl (TypeError ''model''), self)))"


subsection \<open>A small scikit-learn for examples\<close>

text \<open>
  A stand-in for the library, enough to run the predictor on a table: the encoder numbers
  the sorted distinct categories; the stratified split refuses a class with a single member
  and otherwise holds out the last fifth; the scaler accepts numbers only and leaves them
  as they are; the forest learns the first training label and the number of classes, and
  predicts that label with probability one.
\<close>

fun strings_of :: "cell list \<Rightarrow> string list option" where
  "strings_of [] = Some []"
| "strings_of (Str s # cs) = map_option ((#) s) (strings_of cs)"
| "strings_of (_ # cs) = None"

fun numbers_of :: "cell list \<Rightarrow> real list option" where
  "numbers_of [] = Some []"
| "numbers_of (Num x # cs) = map_option ((#) x) (numbers_of cs)"
| "numbers_of (_ # cs) = None"

fun matrix_of :: "cell list list \<Rightarrow> real list list option" where
  "matrix_of [] = Some []"
| "matrix_of (r # rs) =
     (case numbers_of r of
        None \<Rightarrow> None
      | Some xs \<Rightarrow> map_option ((#) xs) (matrix_of rs))"

definition toy_scale :: "cell list list \<Rightarrow> string + real list list" where
  "toy_scale X =
     (case matrix_of X of
        None \<Rightarrow> Inl ''ValueError: could not convert string to float''
      | Some M \<Rightarrow> Inr M)"

definition toy_sklearn :: "(string list, unit, nat \<times> nat) sklearn" where
  "toy_sklearn =
     \<lparr>le_fit_transform = (\<lambda>cats.
        case strings_of cats of
          None \<Rightarrow> Inl ''TypeError: argument must be a string''
        | Some ss \<Rightarrow>
            (let classes = sort (remdups ss) in Inr (classes, map (index_of classes) ss))),
      le_classes = map Str,
      le_inverse_transform = (\<lambda>classes ls.
        if list_all (\<lambda>l. l < length classes) ls then Inr (map (\<lambda>l. Str (classes ! l)) ls)
        else Inl ''ValueError: y contains previously unseen labels''),
      train_test_split = (\<lambda>X y.
        if X = [] then Inl ''ValueError: the resulting train set will be empty''
        else if list_ex (\<lambda>l. count_list y l < 2) y
        then Inl ''ValueError: The least populated class in y has only 1 member''
        else (let k = length X - length X div 5
              in Inr (take k X, drop k X, take k y, drop k y))),
      ss_fit_transform = (\<lambda>X. map_sum id (Pair ()) (toy_scale X)),
      ss_transform = (\<lambda>sc. toy_scale),
      rf_fit = (\<lambda>X y. (case y of [] \<Rightarrow> 0 | l # _ \<Rightarrow> l, length (remdups y))),
      rf_predict = (\<lambda>(l, n) X. map (\<lambda>row. l) X),
      rf_predict_proba = (\<lambda>(l, n) X.
        map (\<lambda>row. map (\<lambda>k. if k = l then 1 else 0) [0..<n]) X)\<rparr>"

text \<open>
  Tables for the predictor: every feature column holds 1, 2, ...; the categories are given.
\<close>

definition feature_frame :: "cell list \<Rightarrow> frame" where
  "feature_frame cats =
     \<lparr>nrows = length cats,
      columns =
        map (\<lambda>c. (c, map (\<lambda>i. Num (of_nat i)) [1..<Suc (length cats)]))
          (feature_cols (BurnoutPredictor :: (unit, unit, unit) predictor))
        @ [(''burnout_category'', cats)]\<rparr>"

definition train_frame :: frame where
  "train_frame = feature_frame [Str ''Low'', Str ''High'', Str ''Low'', Str ''High'']"

definition lone_class_frame :: frame where
  "lone_class_frame = feature_frame [Str ''Medium'', Str ''Medium'', Str ''High'']"

definition no_category_frame :: frame where
  "no_category_frame = \<lparr>nrows = 1, columns = [(''avg_workload_7d'', [Num 3])]\<rparr>"

definition trained :: "(string list, unit, nat \<times> nat) predictor" where
  "trained =
     \<lparr>model = Some (Fitted (1, 2)), scaler = Some (Fitted ()),
      label_encoder = Some (Fitted [''High'', ''Low'']),
      feature_cols = feature_cols (BurnoutPredictor :: (unit, unit, unit) predictor)\<rparr>"

text \<open>
  A caller that calls \<^verbatim>\<open>train\<close> on one table after the other, catching what is raised:
  the outcomes in order and the object after the last call.
\<close>

fun train_all ::
    "('e, 's, 'm) sklearn \<Rightarrow> ('e, 's, 'm) predictor \<Rightarrow> frame list
      \<Rightarrow> (error + unit) list \<times> ('e, 's, 'm) predictor" where
  "train_all sk self [] = ([], self)"
| "train_all sk self (df # dfs) =
     (let (r, self) = train sk self df;
          (rs, self) = train_all sk self dfs
      in (r # rs, self))"

text \<open>
  A table that was scored before: the training table with a column
  \<open>prediction_category\<close> already in it.
\<close>

definition scored_frame :: frame where
  "scored_frame =
     train_frame\<lparr>columns := columns train_frame
       @ [(''prediction_category'', [Str ''High'', Str ''High'', Str ''High'', Str ''High''])]\<rparr>"

definition store_of :: "frame \<Rightarrow> store" where
  "store_of df = (\<lambda>a. \<lparr>nrows = 0, columns = []\<rparr>)(0 := df)"

section \<open>Properties of the feature engineering\<close>

lemma length_engineer_features: "length (engineer_features df) = length df"
  by (simp add: engineer_features_def sort_values_def Let_def)

lemma engineer_features_cases:
  assumes "r \<in> set (engineer_features df)"
  obtains i where "i < length df" and "r = engineer_row (sort_values df) i"
  using assms by (auto simp: engineer_features_def sort_values_def Let_def)

lemma np_select3:
  "np_select [a, b, c] [x, y, z] d = (if a then x else if b then y else if c then z else d)"
  by simp

lemma np_round_fix: "np_round 0.9 2 = 0.9" "np_round 0.75 2 = 0.75" "np_round 0.65 2 = 0.65"
  by (simp_all add: np_round_def rint_def Let_def)

lemma burnout_risk_index_of_if:
  "burnout_risk_index_of w wl aw =
     (if w > 8 \<and> wl < 0.5 then 0.9
      else if w > 7 \<and> wl < 0.6 then 0.75
      else if aw > 7 then 0.65
      else np_round (w / 10 * 0.4 + (1 - wl) * 0.6) 2)"
  unfolding burnout_risk_index_of_def np_select3
  using np_round_fix by (simp del: np_select.simps)

lemma engineer_row_sel:
  "workload_index (engineer_row df i) = workload_index_of (df ! i)"
  "wellness_index (engineer_row df i) = wellness_index_of (df ! i)"
  "meeting_burden (engineer_row df i) = meeting_burden_of (df ! i)"
  "avg_workload_7d (engineer_row df i) =
     np_round (groupby_rolling_at employee_id workload_index_of 7 mean df i) 2"
  "burnout_risk_index (engineer_row df i) =
     burnout_risk_index_of (workload_index (engineer_row df i)) (wellness_index (engineer_row df i))
       (avg_workload_7d (engineer_row df i))"
  "burnout_category (engineer_row df i) = burnout_category_of (burnout_risk_index (engineer_row df i))"
  "total_active_hours (engineer_row df i) = total_active_hours (df ! i)"
  "num_meetings (engineer_row df i) = num_meetings (df ! i)"
  "employee_id (engineer_row df i) = employee_id (df ! i)"
  by (simp_all add: engineer_row_def Let_def raw_row.defs feat_row.defs)

lemma nth_engineer_features:
  "i < length df \<Longrightarrow> engineer_features df ! i = engineer_row (sort_values df) i"
  by (simp add: engineer_features_def Let_def sort_values_def)

lemma rint_ge: "of_int a \<le> x \<Longrightarrow> a \<le> rint x"
proof -
  assume "of_int a \<le> x"
  then have "a \<le> \<lfloor>x\<rfloor>" by (simp add: le_floor_iff)
  then show ?thesis unfolding rint_def Let_def by auto
qed

lemma rint_le: "x \<le> of_int b \<Longrightarrow> rint x \<le> b"
proof (cases "\<lfloor>x\<rfloor> = b")
  case True
  assume "x \<le> of_int b"
  with True have "x = of_int \<lfloor>x\<rfloor>"
    using of_int_floor_le [of x] by simp
  then have "x - of_int \<lfloor>x\<rfloor> = 0" by simp
  then show ?thesis unfolding rint_def Let_def using True by simp
next
  case False
  assume "x \<le> of_int b"
  then have "\<lfloor>x\<rfloor> \<le> b" by (simp add: floor_le_iff)
  with False have "\<lfloor>x\<rfloor> + 1 \<le> b" by simp
  then show ?thesis unfolding rint_def Let_def by auto
qed

lemma np_round_unit:
  assumes "0 \<le> x" and "x \<le> 1"
  shows "0 \<le> np_round x 2 \<and> np_round x 2 \<le> 1"
proof -
  have "of_int 0 \<le> x * 10 ^ 2" using assms(1) by simp
  then have lo: "0 \<le> rint (x * 10 ^ 2)" by (rule rint_ge)
  have "x * 10 ^ 2 \<le> of_int 100" using assms(2) by simp
  then have hi: "rint (x * 10 ^ 2) \<le> 100" by (rule rint_le)
  show ?thesis unfolding np_round_def using lo hi by simp
qed

text \<open>
  Claim C1. For every row of the engineered table, \<open>burnout_risk_index\<close> is the value of
  the first branch that matches, in this order: 0.90 when the workload index is above 8 and
  the wellness index below 0.5; else 0.75 when the workload index is above 7 and the wellness
  index below 0.6; else 0.65 when the 7-day workload average is above 7; else
  \<open>round(workload_index / 10 * 0.4 + (1 - wellness_index) * 0.6, 2)\<close>. A row with workload
  index 9 and wellness index 0.3 gets 0.90 whatever its 7-day average is; a row with workload
  index 5, wellness index 0.8 and 7-day average 3 gets 0.32.
\<close>

theorem burnout_risk_index_priority:
  assumes "r \<in> set (engineer_features df)"
  shows "burnout_risk_index r =
           (if workload_index r > 8 \<and> wellness_index r < 0.5 then 0.90
            else if workload_index r > 7 \<and> wellness_index r < 0.6 then 0.75
            else if avg_workload_7d r > 7 then 0.65
            else np_round (workload_index r / 10 * 0.4 + (1 - wellness_index r) * 0.6) 2)
         \<and> (workload_index r = 9 \<and> wellness_index r = 0.3 \<longrightarrow> burnout_risk_index r = 0.90)
         \<and> (workload_index r = 5 \<and> wellness_index r = 0.8 \<and> avg_workload_7d r = 3
              \<longrightarrow> burnout_risk_index r = 0.32)"
proof -
  from assms obtain i where r: "r = engineer_row (sort_values df) i"
    by (rule engineer_features_cases)
  have eq: "burnout_risk_index r =
      burnout_risk_index_of (workload_index r) (wellness_index r) (avg_workload_7d r)"
    unfolding r by (rule engineer_row_sel(5))
  have a: "burnout_risk_index_of 9 0.3 aw = 0.9" for aw
    by (simp add: burnout_risk_index_of_if)
  have d: "burnout_risk_index_of 5 0.8 3 = 0.32"
    by (simp add: burnout_risk_index_of_if np_round_def rint_def)
  show ?thesis
  proof (intro conjI impI)
    show "burnout_risk_index r =
           (if workload_index r > 8 \<and> wellness_index r < 0.5 then 0.90
            else if workload_index r > 7 \<and> wellness_index r < 0.6 then 0.75
            else if avg_workload_7d r > 7 then 0.65
            else np_round (workload_index r / 10 * 0.4 + (1 - wellness_index r) * 0.6) 2)"
      unfolding eq by (simp add: burnout_risk_index_of_if)
  next
    assume "workload_index r = 9 \<and> wellness_index r = 0.3"
    then have "burnout_risk_index_of (workload_index r) (wellness_index r) (avg_workload_7d r)
        = burnout_risk_index_of 9 0.3 (avg_workload_7d r)"
      by metis
    then show "burnout_risk_index r = 0.90" unfolding eq using a [of "avg_workload_7d r"] by simp
  next
    assume "workload_index r = 5 \<and> wellness_index r = 0.8 \<and> avg_workload_7d r = 3"
    then have "burnout_risk_index_of (workload_index r) (wellness_index r) (avg_workload_7d r)
        = burnout_risk_index_of 5 0.8 3"
      by metis
    then show "burnout_risk_index r = 0.32" unfolding eq using d by simp
  qed
qed

text \<open>
  Claim C2. For every row of the engineered table, \<open>burnout_category\<close> is \<open>High\<close>
  exactly when \<open>burnout_risk_index \<ge> 0.70\<close>, \<open>Medium\<close> exactly when
  \<open>0.50 \<le> burnout_risk_index < 0.70\<close>, and \<open>Low\<close> exactly when it is below 0.50.
\<close>

theorem burnout_category_thresholds:
  assumes "r \<in> set (engineer_features df)"
  shows "(burnout_category r = ''High'' \<longleftrightarrow> burnout_risk_index r \<ge> 0.70)
       \<and> (burnout_category r = ''Medium'' \<longleftrightarrow>
            0.50 \<le> burnout_risk_index r \<and> burnout_risk_index r < 0.70)
       \<and> (burnout_category r = ''Low'' \<longleftrightarrow> burnout_risk_index r < 0.50)"
proof -
  from assms obtain i where r: "r = engineer_row (sort_values df) i"
    by (rule engineer_features_cases)
  have eq: "burnout_category r = burnout_category_of (burnout_risk_index r)"
    unfolding r by (rule engineer_row_sel(6))
  show ?thesis
    unfolding eq burnout_category_of_def by auto
qed




text \<open>
  Claim C4, as amended. The stage does not clamp the score, so the claim holds only under a
  bound on the two indices it is computed from: for every row of the engineered table whose
  workload index lies in \<open>[0, 10]\<close> and whose wellness index lies in \<open>[0, 1]\<close>,
  \<open>burnout_risk_index\<close> lies in \<open>[0, 1]\<close>.
\<close>

theorem burnout_risk_index_unit_interval:
  assumes "r \<in> set (engineer_features df)"
    and "0 \<le> workload_index r" and "workload_index r \<le> 10"
    and "0 \<le> wellness_index r" and "wellness_index r \<le> 1"
  shows "0 \<le> burnout_risk_index r \<and> burnout_risk_index r \<le> 1"
proof -
  from assms(1) obtain i where r: "r = engineer_row (sort_values df) i"
    by (rule engineer_features_cases)
  have eq: "burnout_risk_index r =
      burnout_risk_index_of (workload_index r) (wellness_index r) (avg_workload_7d r)"
    unfolding r by (rule engineer_row_sel(5))
  let ?x = "workload_index r / 10 * 0.4 + (1 - wellness_index r) * 0.6"
  have "0 \<le> ?x" using assms(2,5) by simp
  moreover have "?x \<le> 1" using assms(3,4) by argo
  ultimately have "0 \<le> np_round ?x 2 \<and> np_round ?x 2 \<le> 1"
    by (rule np_round_unit)
  then show ?thesis
    unfolding eq burnout_risk_index_of_if by simp
qed

lemmas eval_defs = nth_engineer_features engineer_row_sel sort_values_def
  workload_index_of_def wellness_index_of_def meeting_burden_of_def np_round_def rint_def
  groupby_rolling_at_def rolling_def window_at_def mean_def np_where_def

lemma demo_mem: "i < 4 \<Longrightarrow> engineer_features demo ! i \<in> set (engineer_features demo)"
  by (rule nth_mem) (simp add: length_engineer_features demo_def)

text \<open>
  Witness for C1 on the example table: its first row after sorting has workload index 9 and
  wellness index 0.3 and scores 0.90; its third has 5, 0.8 and a 7-day average of 3 and
  scores 0.32.
\<close>

theorem burnout_risk_index_priority_witness:
  "engineer_features demo ! 0 \<in> set (engineer_features demo)
   \<and> workload_index (engineer_features demo ! 0) = 9
   \<and> wellness_index (engineer_features demo ! 0) = 0.3
   \<and> burnout_risk_index (engineer_features demo ! 0) = 0.90
   \<and> engineer_features demo ! 2 \<in> set (engineer_features demo)
   \<and> workload_index (engineer_features demo ! 2) = 5
   \<and> wellness_index (engineer_features demo ! 2) = 0.8
   \<and> avg_workload_7d (engineer_features demo ! 2) = 3
   \<and> burnout_risk_index (engineer_features demo ! 2) = 0.32"
proof -
  have m0: "engineer_features demo ! 0 \<in> set (engineer_features demo)"
    and m2: "engineer_features demo ! 2 \<in> set (engineer_features demo)"
    by (simp_all add: demo_mem)
  have c0: "workload_index (engineer_features demo ! 0) = 9
      \<and> wellness_index (engineer_features demo ! 0) = 0.3"
    by (simp add: eval_defs demo_def)
  have c2: "workload_index (engineer_features demo ! 2) = 5
      \<and> wellness_index (engineer_features demo ! 2) = 0.8
      \<and> avg_workload_7d (engineer_features demo ! 2) = 3"
    by (simp add: eval_defs demo_def)
  show ?thesis
    using burnout_risk_index_priority [OF m0] burnout_risk_index_priority [OF m2] m0 m2 c0 c2
    by blast
qed

text \<open>
  Witness for C2 on the example table: a row with score 0.90 is \<open>High\<close>, a row with score
  0.32 is \<open>Low\<close>.
\<close>

theorem burnout_category_thresholds_witness:
  "engineer_features demo ! 0 \<in> set (engineer_features demo)
   \<and> burnout_risk_index (engineer_features demo ! 0) = 0.90
   \<and> burnout_category (engineer_features demo ! 0) = ''High''
   \<and> engineer_features demo ! 2 \<in> set (engineer_features demo)
   \<and> burnout_risk_index (engineer_features demo ! 2) = 0.32
   \<and> burnout_category (engineer_features demo ! 2) = ''Low''"
proof -
  have m0: "engineer_features demo ! 0 \<in> set (engineer_features demo)"
    and m2: "engineer_features demo ! 2 \<in> set (engineer_features demo)"
    by (simp_all add: demo_mem)
  have c0: "burnout_risk_index (engineer_features demo ! 0) = 0.90"
    and c2: "burnout_risk_index (engineer_features demo ! 2) = 0.32"
    by (simp_all add: eval_defs burnout_risk_index_of_if demo_def)
  show ?thesis
    using burnout_category_thresholds [OF m0] burnout_category_thresholds [OF m2] m0 m2 c0 c2
    by simp
qed



text \<open>
  Witness for C4 as amended: a row with workload index 5 and wellness index 0.8.
\<close>

theorem burnout_risk_index_unit_interval_witness:
  "engineer_features demo ! 2 \<in> set (engineer_features demo)
   \<and> workload_index (engineer_features demo ! 2) = 5
   \<and> wellness_index (engineer_features demo ! 2) = 0.8
   \<and> 0 \<le> burnout_risk_index (engineer_features demo ! 2)
   \<and> burnout_risk_index (engineer_features demo ! 2) \<le> 1"
proof -
  have m2: "engineer_features demo ! 2 \<in> set (engineer_features demo)"
    by (simp add: demo_mem)
  have c2: "workload_index (engineer_features demo ! 2) = 5
      \<and> wellness_index (engineer_features demo ! 2) = 0.8"
    by (simp add: eval_defs demo_def)
  show ?thesis
    using burnout_risk_index_unit_interval [OF m2] m2 c2 by simp
qed

text \<open>
  Counterexample to C4 as stated: on the fourth day of the overloaded employee no branch
  fires (wellness index 0.6, 7-day average 6.8), the workload index is 22.4, and the
  unclamped default arm gives \<open>22.4 / 10 * 0.4 + 0.4 * 0.6 = 1.136\<close>, rounded to 1.14.
\<close>

theorem burnout_risk_index_above_one:
  "engineer_features overload ! 3 \<in> set (engineer_features overload)
   \<and> workload_index (engineer_features overload ! 3) = 22.4
   \<and> wellness_index (engineer_features overload ! 3) = 0.6
   \<and> avg_workload_7d (engineer_features overload ! 3) = 6.8
   \<and> burnout_risk_index (engineer_features overload ! 3) = 1.14
   \<and> \<not> burnout_risk_index (engineer_features overload ! 3) \<le> 1"
proof -
  have m: "engineer_features overload ! 3 \<in> set (engineer_features overload)"
    by (rule nth_mem) (simp add: length_engineer_features overload_def)
  have c: "workload_index (engineer_features overload ! 3) = 22.4
      \<and> wellness_index (engineer_features overload ! 3) = 0.6
      \<and> avg_workload_7d (engineer_features overload ! 3) = 6.8"
    by (simp add: eval_defs overload_def quiet_day_def)
  have b: "burnout_risk_index (engineer_features overload ! 3) = 1.14"
    by (simp add: eval_defs burnout_risk_index_of_if overload_def quiet_day_def)
  show ?thesis using m c b by simp
qed

lemma filter_map_index:
  assumes "\<And>i. i < length xs \<Longrightarrow> Q (G i) = P (xs ! i)"
    and "\<And>i. i < length xs \<Longrightarrow> P (xs ! i) \<Longrightarrow> G i = H (length (filter P (take i xs)))"
  shows "filter Q (map G [0..<length xs]) = map H [0..<length (filter P xs)]"
  using assms
proof (induction xs rule: rev_induct)
  case Nil
  then show ?case by simp
next
  case (snoc x xs)
  have q: "Q (G i) = P (xs ! i)" if "i < length xs" for i
    using snoc.prems(1) [of i] that by (simp add: nth_append)
  have g: "G i = H (length (filter P (take i xs)))" if "i < length xs" "P (xs ! i)" for i
    using snoc.prems(2) [of i] that by (simp add: nth_append)
  have ih: "filter Q (map G [0..<length xs]) = map H [0..<length (filter P xs)]"
    using q g by (rule snoc.IH)
  have ql: "Q (G (length xs)) = P x"
    using snoc.prems(1) [of "length xs"] by simp
  show ?case
  proof (cases "P x")
    case True
    have "G (length xs) = H (length (filter P xs))"
      using snoc.prems(2) [of "length xs"] True by simp
    then show ?thesis using True ql ih by simp
  next
    case False
    then show ?thesis using ql ih by simp
  qed
qed

lemma filter_at_position:
  assumes "i < length xs" and "P (xs ! i)"
  shows "filter P xs ! length (filter P (take i xs)) = xs ! i"
    and "take (length (filter P (take i xs))) (filter P xs) = filter P (take i xs)"
    and "length (filter P (take i xs)) < length (filter P xs)"
proof -
  have xs: "xs = take i xs @ xs ! i # drop (Suc i) xs"
    using assms(1) by (rule id_take_nth_drop)
  have f: "filter P xs = filter P (take i xs) @ xs ! i # filter P (drop (Suc i) xs)"
    using assms(2) by (subst xs) simp
  show "filter P xs ! length (filter P (take i xs)) = xs ! i"
    by (subst f) (simp add: nth_append)
  show "take (length (filter P (take i xs))) (filter P xs) = filter P (take i xs)"
    by (subst f) simp
  have "length (filter P xs) = length (filter P (take i xs) @ xs ! i # filter P (drop (Suc i) xs))"
    using f by simp
  then show "length (filter P (take i xs)) < length (filter P xs)"
    by simp
qed

lemma groupby_rolling_at_group:
  assumes "i < length df" and "key (df ! i) = a"
  shows "groupby_rolling_at key col w agg df i =
         rolling w agg (map col (filter (\<lambda>r. key r = a) df))
           ! length (filter (\<lambda>r. key r = a) (take i df))"
  using assms by (simp add: groupby_rolling_at_def Let_def)

lemma groupby_rolling_at_filter:
  assumes "i < length df" and "key (df ! i) = a"
  shows "groupby_rolling_at key col w agg (filter (\<lambda>r. key r = a) df)
           (length (filter (\<lambda>r. key r = a) (take i df)))
         = groupby_rolling_at key col w agg df i"
proof -
  let ?P = "\<lambda>r. key r = a"
  let ?j = "length (filter ?P (take i df))"
  have p: "?P (df ! i)" using assms(2) by simp
  note pos = filter_at_position [of i df ?P, OF assms(1) p]
  have k: "key (filter ?P df ! ?j) = a" using pos(1) assms(2) by simp
  have "groupby_rolling_at key col w agg (filter ?P df) ?j =
        rolling w agg (map col (filter ?P (filter ?P df)))
          ! length (filter ?P (take ?j (filter ?P df)))"
    using pos(3) k by (rule groupby_rolling_at_group)
  also have "\<dots> = rolling w agg (map col (filter ?P df)) ! ?j"
    by (simp add: pos(2))
  also have "\<dots> = groupby_rolling_at key col w agg df i"
    using assms by (rule groupby_rolling_at_group [symmetric])
  finally show ?thesis .
qed

lemma engineer_row_filter:
  assumes "i < length df" and "employee_id (df ! i) = a"
  shows "engineer_row (filter (\<lambda>r. employee_id r = a) df)
           (length (filter (\<lambda>r. employee_id r = a) (take i df)))
         = engineer_row df i"
proof -
  let ?P = "\<lambda>r::raw_row. employee_id r = a"
  have p: "?P (df ! i)" using assms(2) by simp
  have n: "filter ?P df ! length (filter ?P (take i df)) = df ! i"
    using assms(1) p by (rule filter_at_position(1))
  show ?thesis
    unfolding engineer_row_def n
    by (simp only: groupby_rolling_at_filter [of i df employee_id a, OF assms])
qed

lemma employee_id_engineer_row: "employee_id (engineer_row df i) = employee_id (df ! i)"
  by (simp add: engineer_row_def Let_def raw_row.defs feat_row.defs)

lemma filter_engineer_features:
  "filter (\<lambda>r. employee_id r = a) (engineer_features df)
   = engineer_features (filter (\<lambda>r. employee_id r = a) df)"
proof -
  let ?P = "\<lambda>r::raw_row. employee_id r = a"
  let ?Q = "\<lambda>r::feat_row. employee_id r = a"
  let ?s = "sort_values df"
  have s: "filter ?P ?s = sort_values (filter ?P df)"
    unfolding sort_values_def by (rule filter_sort)
  have "filter ?Q (map (engineer_row ?s) [0..<length ?s])
        = map (engineer_row (filter ?P ?s)) [0..<length (filter ?P ?s)]"
  proof (rule filter_map_index)
    fix i assume "i < length ?s"
    show "?Q (engineer_row ?s i) = ?P (?s ! i)"
      by (simp add: employee_id_engineer_row)
  next
    fix i assume "i < length ?s" and "?P (?s ! i)"
    then show "engineer_row ?s i = engineer_row (filter ?P ?s) (length (filter ?P (take i ?s)))"
      by (rule engineer_row_filter [symmetric])
  qed
  then show ?thesis
    unfolding engineer_features_def Let_def s .
qed

lemma insort_key_const_fst:
  assumes "f x = a" and "\<forall>y\<in>set ys. f y = a"
  shows "insort_key (\<lambda>x. (f x, g x)) x ys = insort_key g x ys"
  using assms by (induction ys) auto

lemma sort_key_const_fst:
  assumes "\<forall>x\<in>set xs. f x = a"
  shows "sort_key (\<lambda>x. (f x, g x)) xs = sort_key g xs"
  using assms
proof (induction xs)
  case Nil
  then show ?case by simp
next
  case (Cons x xs)
  then have ih: "sort_key (\<lambda>x. (f x, g x)) xs = sort_key g xs" by simp
  have "\<forall>y\<in>set (sort_key g xs). f y = a" using Cons.prems by simp
  then have "insort_key (\<lambda>x. (f x, g x)) x (sort_key g xs) = insort_key g x (sort_key g xs)"
    using Cons.prems insort_key_const_fst [of f x a "sort_key g xs" g] by simp
  then show ?case using ih by (simp add: sort_key_simps)
qed

lemma sort_values_rows_of: "sort_values (rows_of a df) = sort_key date (rows_of a df)"
  unfolding sort_values_def by (rule sort_key_const_fst [of _ _ a]) (simp add: rows_of_def)

lemma groupby_rolling_at_single:
  assumes "\<forall>r\<in>set df. key r = a" and "i < length df"
  shows "groupby_rolling_at key col w agg df i = rolling w agg (map col df) ! i"
proof -
  have k: "key (df ! i) = a" using assms by simp
  have 1: "filter (\<lambda>r. key r = a) df = df" using assms(1) by (simp add: filter_id_conv)
  have "\<forall>r\<in>set (take i df). key r = a" using assms(1) by (meson in_set_takeD)
  then have 2: "filter (\<lambda>r. key r = a) (take i df) = take i df" by (simp add: filter_id_conv)
  show ?thesis
    using assms(2) by (simp add: groupby_rolling_at_def Let_def k 1 2)
qed

lemma length_rolling: "length (rolling w agg xs) = length xs"
  by (simp add: rolling_def)

lemma map_rolling_index:
  "map (\<lambda>i. f (rolling w agg (map col df) ! i)) [0..<length df] = map f (rolling w agg (map col df))"
proof -
  have "map f (rolling w agg (map col df))
      = map f (map (\<lambda>i. rolling w agg (map col df) ! i) [0..<length (rolling w agg (map col df))])"
    by (simp only: map_nth)
  then show ?thesis by (simp add: length_rolling)
qed

lemma engineer_row_rolling_cols:
  "avg_workload_7d (engineer_row df i) =
     np_round (groupby_rolling_at employee_id workload_index_of 7 mean df i) 2"
  "avg_wellness_7d (engineer_row df i) =
     np_round (groupby_rolling_at employee_id wellness_index_of 7 mean df i) 2"
  "sleep_variance_7d (engineer_row df i) =
     np_round (fillna 0 (groupby_rolling_at employee_id sleep_hours 7 std df i)) 2"
  by (simp_all add: engineer_row_def Let_def raw_row.defs feat_row.defs)

lemma rolling_cols_single_employee:
  assumes "\<forall>r\<in>set df. employee_id r = a"
  shows "map avg_workload_7d (engineer_features df) =
           map (\<lambda>v. np_round v 2) (rolling 7 mean (map workload_index_of (sort_values df)))"
    and "map avg_wellness_7d (engineer_features df) =
           map (\<lambda>v. np_round v 2) (rolling 7 mean (map wellness_index_of (sort_values df)))"
    and "map sleep_variance_7d (engineer_features df) =
           map (\<lambda>v. np_round (fillna 0 v) 2) (rolling 7 std (map sleep_hours (sort_values df)))"
proof -
  let ?s = "sort_values df"
  have s: "\<forall>r\<in>set ?s. employee_id r = a"
    using assms by (simp add: sort_values_def)
  have g: "groupby_rolling_at employee_id col 7 agg ?s i = rolling 7 agg (map col ?s) ! i"
    if "i \<in> set [0..<length ?s]" for i col and agg :: "real list \<Rightarrow> 'b"
    using s that groupby_rolling_at_single [of ?s employee_id a i col 7 agg] by simp
  show "map avg_workload_7d (engineer_features df) =
           map (\<lambda>v. np_round v 2) (rolling 7 mean (map workload_index_of ?s))"
    unfolding engineer_features_def Let_def map_map o_def engineer_row_rolling_cols
    by (simp only: g cong: map_cong) (rule map_rolling_index)
  show "map avg_wellness_7d (engineer_features df) =
           map (\<lambda>v. np_round v 2) (rolling 7 mean (map wellness_index_of ?s))"
    unfolding engineer_features_def Let_def map_map o_def engineer_row_rolling_cols
    by (simp only: g cong: map_cong) (rule map_rolling_index)
  show "map sleep_variance_7d (engineer_features df) =
           map (\<lambda>v. np_round (fillna 0 v) 2) (rolling 7 std (map sleep_hours ?s))"
    unfolding engineer_features_def Let_def map_map o_def engineer_row_rolling_cols
    by (simp only: g cong: map_cong) (rule map_rolling_index)
qed

text \<open>
  Claim C5. Two tables that hold the same rows of employee \<open>a\<close>, in the same relative
  order, give the same engineered rows for \<open>a\<close>, however the rows of other employees
  are inserted, removed or reordered. The three rolling columns of \<open>a\<close> are the 7-row
  rolling aggregates over the rows of \<open>a\<close> alone, sorted by date ascending: the rounded
  rolling mean of the workload index and of the wellness index, and the rounded rolling
  standard deviation of the sleep hours with undefined values filled by 0.
\<close>

theorem rolling_aggregates_per_employee:
  "(rows_of a df = rows_of a df' \<longrightarrow>
      rows_of a (engineer_features df) = rows_of a (engineer_features df'))
   \<and> map avg_workload_7d (rows_of a (engineer_features df)) =
       map (\<lambda>v. np_round v 2)
         (rolling 7 mean (map workload_index_of (sort_key date (rows_of a df))))
   \<and> map avg_wellness_7d (rows_of a (engineer_features df)) =
       map (\<lambda>v. np_round v 2)
         (rolling 7 mean (map wellness_index_of (sort_key date (rows_of a df))))
   \<and> map sleep_variance_7d (rows_of a (engineer_features df)) =
       map (\<lambda>v. np_round (fillna 0 v) 2)
         (rolling 7 std (map sleep_hours (sort_key date (rows_of a df))))"
proof -
  have c: "rows_of a (engineer_features t) = engineer_features (rows_of a t)" for t
    unfolding rows_of_def by (rule filter_engineer_features)
  have one: "\<forall>r\<in>set (rows_of a df). employee_id r = a"
    by (simp add: rows_of_def)
  note cols = rolling_cols_single_employee [OF one, unfolded sort_values_rows_of]
  show ?thesis
    unfolding c using cols by simp
qed

text \<open>
  Witness for C5: the two example tables differ, agree on the rows of \<open>EMP001\<close>, and
  give the same engineered rows for \<open>EMP001\<close>, whose 7-day workload averages are 1 and 3.
\<close>

theorem rolling_aggregates_per_employee_witness:
  "rows_of ''EMP001'' demo = rows_of ''EMP001'' demo_other
   \<and> demo \<noteq> demo_other
   \<and> rows_of ''EMP001'' (engineer_features demo)
       = rows_of ''EMP001'' (engineer_features demo_other)
   \<and> map avg_workload_7d (rows_of ''EMP001'' (engineer_features demo)) = [1, 3]"
proof -
  have h: "rows_of ''EMP001'' demo = rows_of ''EMP001'' demo_other"
    by (simp add: rows_of_def demo_def demo_other_def)
  have d: "demo \<noteq> demo_other"
    by (simp add: demo_def demo_other_def)
  have s: "map workload_index_of (sort_key date (rows_of ''EMP001'' demo)) = [1, 5]"
    by (simp add: rows_of_def demo_def workload_index_of_def np_round_def rint_def)
  have r: "map (\<lambda>v. np_round v 2) (rolling 7 mean [1, 5]) = [1, 3]"
    by (simp add: rolling_def window_at_def mean_def np_round_def rint_def)
  note t = rolling_aggregates_per_employee [of "''EMP001''" demo demo_other]
  have e: "rows_of ''EMP001'' (engineer_features demo)
      = rows_of ''EMP001'' (engineer_features demo_other)"
    using t h by blast
  have "map avg_workload_7d (rows_of ''EMP001'' (engineer_features demo)) =
      map (\<lambda>v. np_round v 2)
        (rolling 7 mean (map workload_index_of (sort_key date (rows_of ''EMP001'' demo))))"
    using t by blast
  then have c: "map avg_workload_7d (rows_of ''EMP001'' (engineer_features demo)) = [1, 3]"
    unfolding s r .
  show ?thesis
    using h d e c by blast
qed

section \<open>Properties of the generator\<close>

lemma days_loop_same_day:
  "toordinal s = toordinal s' \<Longrightarrow> days_loop rng emp s days g = days_loop rng emp s' days g"
proof (induction days arbitrary: g)
  case Nil
  then show ?case by simp
next
  case (Cons day days)
  have w: "weekday (plus_days s (int day)) = weekday (plus_days s' (int day))"
    using Cons.prems by (simp add: weekday_def plus_days_def)
  have m: "make_daily rng emp (plus_days s (int day)) g
         = make_daily rng emp (plus_days s' (int day)) g"
    using Cons.prems by (simp add: make_daily_def plus_days_def)
  show ?case
    using Cons.IH [OF Cons.prems] by (simp add: w m Let_def)
qed

lemma daily_loop_same_day:
  "toordinal s = toordinal s' \<Longrightarrow> daily_loop rng s n emps g = daily_loop rng s' n emps g"
proof (induction emps arbitrary: g)
  case Nil
  then show ?case by simp
next
  case (Cons emp emps)
  show ?case
    by (simp add: Let_def Cons.IH [OF Cons.prems]
        days_loop_same_day [OF Cons.prems, of rng emp "[0..<n]" g])
qed

text \<open>
  Claim C3, as amended. The window of dates ends at the moment of the call, so the output is
  a function of the calendar day of the call as well. For fixed \<open>num_employees\<close> and
  \<open>num_days\<close>, two calls made on the same calendar day return the same table (or raise
  the same exception) and leave numpy's generator in the same state, at whatever time of day
  they are made and whatever state earlier draws left the generator in: the call reseeds it
  with 42. Equality here is equality of the tables' values; their encoding as bytes and the
  platform are outside the model.
\<close>

theorem generate_same_day:
  assumes "toordinal now = toordinal now'"
  shows "generate_employee_data rng now num_employees num_days g
       = generate_employee_data rng now' num_employees num_days g'"
proof -
  have "toordinal (plus_days now (- int num_days)) = toordinal (plus_days now' (- int num_days))"
    using assms by (simp add: plus_days_def)
  then have "daily_loop rng (plus_days now (- int num_days)) num_days emps h
      = daily_loop rng (plus_days now' (- int num_days)) num_days emps h" for emps h
    by (rule daily_loop_same_day)
  then show ?thesis
    by (simp add: generate_employee_data_def Let_def)
qed


lemma map_sum_length_generate:
  "map_sum id length (fst (generate_employee_data rng now n d g)) =
     (let (employees, g) = employees_loop rng [0..<n] (seed rng 42);
          (daily_data, g) = daily_loop rng (plus_days now (- int d)) d employees g
      in map_sum id length (merge daily_data employees))"
  by (simp add: generate_employee_data_def Let_def length_engineer_features
      split: prod.splits sum.splits)

lemma format_03d_0: "format_03d 0 = ''000''"
  by (simp add: format_03d_def str_nat.simps digit_char_def numeral_2_eq_2)

lemmas generate_eval = make_employee_def make_daily_def counter_rng_def departments_def
  format_03d_0 plus_days_def weekday_def merge_def upt_rec

text \<open>
  Counterexample to C3 as stated: with one employee and \<open>num_days = 2\<close>, a call on a
  Tuesday covers Sunday and Monday and returns one row, a call on the Wednesday after covers
  Monday and Tuesday and returns two, from the same generator and the same starting state.
\<close>

theorem generate_depends_on_clock:
  "map_sum id length (fst (generate_employee_data counter_rng tuesday 1 2 0)) = Inr 1
   \<and> map_sum id length (fst (generate_employee_data counter_rng wednesday 1 2 0)) = Inr 2
   \<and> fst (generate_employee_data counter_rng tuesday 1 2 0)
       \<noteq> fst (generate_employee_data counter_rng wednesday 1 2 0)"
proof -
  have t: "map_sum id length (fst (generate_employee_data counter_rng tuesday 1 2 0)) = Inr 1"
    unfolding map_sum_length_generate
    by (simp add: tuesday_def generate_eval)
  have w: "map_sum id length (fst (generate_employee_data counter_rng wednesday 1 2 0)) = Inr 2"
    unfolding map_sum_length_generate
    by (simp add: wednesday_def generate_eval)
  from t w have "fst (generate_employee_data counter_rng tuesday 1 2 0)
       \<noteq> fst (generate_employee_data counter_rng wednesday 1 2 0)"
    by auto
  with t w show ?thesis by blast
qed

text \<open>
  Witness for C3 as amended: a call on Tuesday morning from state 0 and a call on Tuesday
  afternoon from state 1234.
\<close>

theorem generate_same_day_witness:
  "toordinal tuesday = toordinal (tuesday\<lparr>time_of_day := 61200000000\<rparr>)
   \<and> generate_employee_data counter_rng tuesday 3 7 0
       = generate_employee_data counter_rng (tuesday\<lparr>time_of_day := 61200000000\<rparr>) 3 7 1234"
proof -
  have h: "toordinal tuesday = toordinal (tuesday\<lparr>time_of_day := 61200000000\<rparr>)"
    by simp
  show ?thesis
    using generate_same_day [OF h, of counter_rng 3 7 0 1234] h by simp
qed

section \<open>Properties of the predictor\<close>

lemmas toy_eval = train_def dropna_def getitem_def setitem_def to_rows_def index_of_def
  toy_sklearn_def toy_scale_def feature_frame_def BurnoutPredictor_def Let_def

lemma train_train_frame: "train toy_sklearn BurnoutPredictor train_frame = (Inr (), trained)"
  by (simp add: toy_eval train_frame_def trained_def)

lemma train_no_category_frame:
  "train toy_sklearn self no_category_frame =
     (Inl (KeyError ''burnout_category''), self\<lparr>label_encoder := Some Unfitted\<rparr>)"
  by (simp add: toy_eval no_category_frame_def)

lemma train_lone_class_frame:
  assumes "feature_cols self = feature_cols (BurnoutPredictor :: (unit, unit, unit) predictor)"
  shows "train toy_sklearn self lone_class_frame =
     (Inl (Sklearn ''ValueError: The least populated class in y has only 1 member''),
      self\<lparr>label_encoder := Some (Fitted [''High'', ''Medium''])\<rparr>)"
  using assms by (simp add: toy_eval lone_class_frame_def)

lemma feature_cols_trained:
  "feature_cols trained = feature_cols (BurnoutPredictor :: (unit, unit, unit) predictor)"
  by (simp add: trained_def)

subsection \<open>Retraining\<close>

text \<open>
  Claim C6, as amended. \<^verbatim>\<open>train\<close> assigns the three fields one after the other and
  never restores a field. After a call that returns, all three hold what this call fitted
  from the table it was given: the encoder is the one fitted on the \<open>burnout_category\<close>
  column of the table without the rows that lack \<open>avg_workload_7d\<close>, the scaler the one
  fitted on the training part of the split of that table's feature rows and labels, and the
  forest the one fitted on that part scaled and its labels. After a call that raises,
  the object is as it was before the call, or has a new encoder (as constructed, or fitted)
  and the old scaler and forest, or has a new fitted encoder, a scaler as constructed and the
  old forest.
\<close>

theorem train_outcomes:
  "case train sk self df of
     (Inr u, self') \<Rightarrow>
       (\<exists>training_df categories enc labels labelled X X_train X_test y_train y_test sc
           X_train_scaled.
          dropna df ''avg_workload_7d'' = Inr training_df
          \<and> getitem training_df ''burnout_category'' = Inr categories
          \<and> le_fit_transform sk categories = Inr (enc, labels)
          \<and> setitem training_df ''label'' (map (\<lambda>l. Num (of_nat l)) labels) = Inr labelled
          \<and> getitems labelled (feature_cols self) = Inr X
          \<and> train_test_split sk (to_rows (nrows labelled) X) labels
                = Inr (X_train, X_test, y_train, y_test)
          \<and> ss_fit_transform sk X_train = Inr (sc, X_train_scaled)
          \<and> self' = self\<lparr>label_encoder := Some (Fitted enc), scaler := Some (Fitted sc),
                model := Some (Fitted (rf_fit sk X_train_scaled y_train))\<rparr>)
   | (Inl e, self') \<Rightarrow>
       self' = self
       \<or> (\<exists>le. self' = self\<lparr>label_encoder := Some le\<rparr>)
       \<or> (\<exists>enc. self' = self\<lparr>label_encoder := Some (Fitted enc), scaler := Some Unfitted\<rparr>)"
  unfolding train_def Let_def
  by (auto split: sum.splits prod.splits)

text \<open>
  Witness for C6 as amended, with the example library: retraining on a table with a class
  of one member raises in the split and leaves a new encoder beside the old scaler and
  forest; training a new predictor on the training table returns with all three fitted.
\<close>

theorem train_outcomes_witness:
  "train toy_sklearn trained lone_class_frame =
     (Inl (Sklearn ''ValueError: The least populated class in y has only 1 member''),
      trained\<lparr>label_encoder := Some (Fitted [''High'', ''Medium''])\<rparr>)
   \<and> train toy_sklearn BurnoutPredictor train_frame = (Inr (), trained)"
proof -
  note failed = train_outcomes [where sk = toy_sklearn and self = trained and df = lone_class_frame]
  note succeeded =
    train_outcomes [where sk = toy_sklearn and self = BurnoutPredictor and df = train_frame]
  have a: "train toy_sklearn trained lone_class_frame =
     (Inl (Sklearn ''ValueError: The least populated class in y has only 1 member''),
      trained\<lparr>label_encoder := Some (Fitted [''High'', ''Medium''])\<rparr>)"
    by (rule train_lone_class_frame [OF feature_cols_trained])
  have b: "train toy_sklearn BurnoutPredictor train_frame = (Inr (), trained)"
    by (rule train_train_frame)
  show ?thesis
    using failed succeeded a b by blast
qed

text \<open>
  Counterexample to C6 as stated. A predictor is trained; a second call of \<^verbatim>\<open>train\<close>
  raises, once inside the stratified split (a class with a single member) and once with
  \<^verbatim>\<open>KeyError\<close> (a table without \<open>burnout_category\<close>). After either call the encoder
  is no longer the one from before the call, while the scaler and the forest still are.
\<close>

theorem retrain_partial_update:
  "train toy_sklearn BurnoutPredictor train_frame = (Inr (), trained)
   \<and> fst (train toy_sklearn trained lone_class_frame) =
       Inl (Sklearn ''ValueError: The least populated class in y has only 1 member'')
   \<and> label_encoder trained = Some (Fitted [''High'', ''Low''])
   \<and> label_encoder (snd (train toy_sklearn trained lone_class_frame)) =
       Some (Fitted [''High'', ''Medium''])
   \<and> scaler (snd (train toy_sklearn trained lone_class_frame)) = scaler trained
   \<and> model (snd (train toy_sklearn trained lone_class_frame)) = model trained
   \<and> fst (train toy_sklearn trained no_category_frame) = Inl (KeyError ''burnout_category'')
   \<and> label_encoder (snd (train toy_sklearn trained no_category_frame)) = Some Unfitted
   \<and> scaler (snd (train toy_sklearn trained no_category_frame)) = scaler trained
   \<and> model (snd (train toy_sklearn trained no_category_frame)) = model trained"
  by (simp add: train_train_frame train_lone_class_frame [OF feature_cols_trained]
      train_no_category_frame)
    (simp add: trained_def)

subsection \<open>Prediction before training\<close>

lemma train_failed_model:
  "fst (train sk self df) = Inl e \<Longrightarrow> model (snd (train sk self df)) = model self"
  unfolding train_def Let_def
  by (auto split: sum.splits prod.splits)

lemma train_succeeded_model:
  "fst (train sk self df) = Inr u \<Longrightarrow> \<exists>forest. model (snd (train sk self df)) = Some (Fitted forest)"
  unfolding train_def Let_def
  by (auto split: sum.splits prod.splits)

lemma train_all_failed_model:
  "list_all isl (fst (train_all sk self dfs)) \<Longrightarrow> model (snd (train_all sk self dfs)) = model self"
proof (induction dfs arbitrary: self)
  case Nil
  then show ?case by simp
next
  case (Cons df dfs)
  obtain r self' where t: "train sk self df = (r, self')"
    by (cases "train sk self df")
  obtain rs self'' where ts: "train_all sk self' dfs = (rs, self'')"
    by (cases "train_all sk self' dfs")
  from Cons.prems t ts have r: "isl r" and rs: "list_all isl (fst (train_all sk self' dfs))"
    by simp_all
  from r obtain e where "fst (train sk self df) = Inl e"
    using t by (cases r) simp_all
  then have "model self' = model self"
    using train_failed_model [of sk self df e] t by simp
  moreover have "model self'' = model self'"
    using Cons.IH [OF rs] ts by simp
  ultimately show ?case using t ts by simp
qed

lemma predict_unset_model:
  "model self = None \<Longrightarrow> predict sk self r st = (Inl (ValueError ''Model not trained yet''), st)"
  by (simp add: predict_def)

lemma getitems_error: "getitems df cs = Inl e \<Longrightarrow> \<exists>c. e = KeyError c"
  by (induction cs) (auto simp: getitem_def split: sum.splits option.splits)

lemma predict_set_model:
  "model self = Some m \<Longrightarrow> fst (predict sk self r st) \<noteq> Inl (ValueError ''Model not trained yet'')"
  unfolding predict_def Let_def
  by (auto simp: setitem_def column_at_def dest: getitems_error
      split: sum.splits option.splits estimator.splits if_splits)

text \<open>
  Claim C7. On a predictor as constructed, and after any number of calls of \<^verbatim>\<open>train\<close>
  that all raised, \<^verbatim>\<open>predict\<close> raises \<^verbatim>\<open>ValueError('Model not trained yet')\<close> and
  leaves the caller's frame as it was, whatever the frame. After a call of \<^verbatim>\<open>train\<close> that
  returned, \<^verbatim>\<open>predict\<close> does not raise this error.
\<close>

theorem predict_requires_train:
  "(list_all isl (fst (train_all sk BurnoutPredictor dfs)) \<longrightarrow>
      predict sk (snd (train_all sk BurnoutPredictor dfs)) r st
        = (Inl (ValueError ''Model not trained yet''), st))
   \<and> (fst (train sk self df) = Inr () \<longrightarrow>
      fst (predict sk (snd (train sk self df)) r st) \<noteq> Inl (ValueError ''Model not trained yet''))"
proof (intro conjI impI)
  assume "list_all isl (fst (train_all sk BurnoutPredictor dfs))"
  then have "model (snd (train_all sk BurnoutPredictor dfs)) = None"
    using train_all_failed_model [of sk BurnoutPredictor dfs] by (simp add: BurnoutPredictor_def)
  then show "predict sk (snd (train_all sk BurnoutPredictor dfs)) r st
        = (Inl (ValueError ''Model not trained yet''), st)"
    by (rule predict_unset_model)
next
  assume "fst (train sk self df) = Inr ()"
  then obtain forest where "model (snd (train sk self df)) = Some (Fitted forest)"
    using train_succeeded_model by blast
  then show "fst (predict sk (snd (train sk self df)) r st) \<noteq> Inl (ValueError ''Model not trained yet'')"
    by (rule predict_set_model)
qed


lemma predict_trained_train_frame:
  "predict toy_sklearn trained 0 (store_of train_frame) =
     (Inr 0,
      store_of (train_frame\<lparr>columns := columns train_frame
        @ [(''prediction_category'', [Str ''Low'', Str ''Low'', Str ''Low'', Str ''Low'']),
           (''prediction_proba_high'', [Num 0, Num 0, Num 0, Num 0])]\<rparr>))"
  by (simp add: predict_def store_of_def trained_def train_frame_def column_at_def toy_eval
      fun_eq_iff)

text \<open>
  Witness for C7, with the example library: two calls of \<^verbatim>\<open>train\<close> that raise, then
  \<^verbatim>\<open>predict\<close> raises the error; one call of \<^verbatim>\<open>train\<close> that returns, then
  \<^verbatim>\<open>predict\<close> returns the frame.
\<close>

theorem predict_requires_train_witness:
  "list_all isl (fst (train_all toy_sklearn BurnoutPredictor [no_category_frame, lone_class_frame]))
   \<and> predict toy_sklearn
        (snd (train_all toy_sklearn BurnoutPredictor [no_category_frame, lone_class_frame]))
        0 (store_of train_frame)
      = (Inl (ValueError ''Model not trained yet''), store_of train_frame)
   \<and> fst (train toy_sklearn BurnoutPredictor train_frame) = Inr ()
   \<and> fst (predict toy_sklearn (snd (train toy_sklearn BurnoutPredictor train_frame))
        0 (store_of train_frame)) = Inr 0"
proof -
  note t = predict_requires_train [of toy_sklearn "[no_category_frame, lone_class_frame]"
      0 "store_of train_frame" BurnoutPredictor train_frame]
  have a: "list_all isl
      (fst (train_all toy_sklearn BurnoutPredictor [no_category_frame, lone_class_frame]))"
    by (simp add: train_no_category_frame train_lone_class_frame BurnoutPredictor_def)
  have b: "fst (train toy_sklearn BurnoutPredictor train_frame) = Inr ()"
    by (simp add: train_train_frame)
  have c: "fst (predict toy_sklearn (snd (train toy_sklearn BurnoutPredictor train_frame))
        0 (store_of train_frame)) = Inr 0"
    by (simp add: train_train_frame predict_trained_train_frame)
  show ?thesis
    using t a b c by blast
qed

subsection \<open>Saving and loading\<close>

text \<open>
  Claim C8. Saving a predictor to a path and loading that path into a new predictor returns
  without an exception and gives a predictor equal to the saved one, that is, with the same
  \<open>model\<close>, \<open>scaler\<close>, \<open>label_encoder\<close> and \<open>feature_cols\<close>; \<^verbatim>\<open>predict\<close> on
  the loaded predictor has the same outcome and writes the same frame as on the saved one,
  for every frame.
\<close>

theorem save_load_roundtrip:
  "fst (load BurnoutPredictor filepath (save self filepath fs)) = Inr ()
   \<and> snd (load BurnoutPredictor filepath (save self filepath fs)) = self
   \<and> predict sk (snd (load BurnoutPredictor filepath (save self filepath fs))) r st
       = predict sk self r st"
proof -
  have "load BurnoutPredictor filepath (save self filepath fs) = (Inr (), self)"
    by (simp add: load_def save_def BurnoutPredictor_def)
  then show ?thesis by simp
qed

subsection \<open>The frame \<^verbatim>\<open>predict\<close> writes\<close>

lemma update_fresh: "k \<notin> fst ` set al \<Longrightarrow> AList.update k v al = al @ [(k, v)]"
  by (induction al) auto

lemma wf_frame_update:
  assumes "wf_frame df" and "length vs = nrows df"
  shows "wf_frame (df\<lparr>columns := AList.update c vs (columns df)\<rparr>)"
proof -
  have "list_all (\<lambda>(c, vs). length vs = n) (AList.update c vs al)"
    if "list_all (\<lambda>(c, vs). length vs = n) al" and "length vs = n" for n al
    using that by (induction al) auto
  then show ?thesis using assms by (simp add: wf_frame_def)
qed

lemma predict_success:
  assumes "predict sk self r st = (Inr r', st')"
  shows "r' = r \<and>
    (\<exists>categories proba.
       length categories = nrows (st r) \<and> length proba = nrows (st r)
       \<and> st' = st(r := (st r)\<lparr>columns :=
            AList.update ''prediction_proba_high'' proba
              (AList.update ''prediction_category'' categories (columns (st r)))\<rparr>))"
  using assms unfolding predict_def Let_def setitem_def setitem_scalar_def
  by (auto split: option.splits sum.splits estimator.splits if_splits)
    (metis length_replicate length_map)+

text \<open>
  Claim C10, as amended. When \<^verbatim>\<open>predict\<close> returns, it returns the address it was
  given, and in the store only the frame at that address has changed. That frame has the rows
  it had; every column but \<open>prediction_category\<close> and \<open>prediction_proba_high\<close> is as it
  was; these two columns are written, one value per row, by pandas column assignment: a
  column of that name is replaced where it stands, otherwise the column is added last. So on
  a frame that has neither column, exactly these two are appended, in this order. A frame
  whose columns are all as long as its index stays so.
\<close>

theorem predict_frame_effect:
  assumes "predict sk self r st = (Inr r', st')"
  shows "r' = r
   \<and> (\<forall>a. a \<noteq> r \<longrightarrow> st' a = st a)
   \<and> nrows (st' r) = nrows (st r)
   \<and> (wf_frame (st r) \<longrightarrow> wf_frame (st' r))
   \<and> (\<forall>c. c \<noteq> ''prediction_category'' \<and> c \<noteq> ''prediction_proba_high'' \<longrightarrow>
         map_of (columns (st' r)) c = map_of (columns (st r)) c)
   \<and> (\<exists>categories proba.
         length categories = nrows (st r) \<and> length proba = nrows (st r)
         \<and> columns (st' r) =
             AList.update ''prediction_proba_high'' proba
               (AList.update ''prediction_category'' categories (columns (st r)))
         \<and> (''prediction_category'' \<notin> fst ` set (columns (st r))
              \<and> ''prediction_proba_high'' \<notin> fst ` set (columns (st r)) \<longrightarrow>
            columns (st' r) =
              columns (st r)
              @ [(''prediction_category'', categories), (''prediction_proba_high'', proba)]))"
proof -
  from predict_success [OF assms] obtain categories proba where
    r: "r' = r" and
    len: "length categories = nrows (st r)" "length proba = nrows (st r)" and
    st': "st' = st(r := (st r)\<lparr>columns :=
            AList.update ''prediction_proba_high'' proba
              (AList.update ''prediction_category'' categories (columns (st r)))\<rparr>)"
    by blast
  have cols: "columns (st' r) =
      AList.update ''prediction_proba_high'' proba
        (AList.update ''prediction_category'' categories (columns (st r)))"
    by (simp add: st')
  have fresh: "columns (st' r) =
      columns (st r) @ [(''prediction_category'', categories), (''prediction_proba_high'', proba)]"
    if "''prediction_category'' \<notin> fst ` set (columns (st r))
        \<and> ''prediction_proba_high'' \<notin> fst ` set (columns (st r))"
    using that by (simp add: cols update_fresh)
  have others: "map_of (columns (st' r)) c = map_of (columns (st r)) c"
    if "c \<noteq> ''prediction_category'' \<and> c \<noteq> ''prediction_proba_high''" for c
    using that by (simp add: cols update_conv')
  have frame: "\<forall>a. a \<noteq> r \<longrightarrow> st' a = st a" "nrows (st' r) = nrows (st r)"
    by (simp_all add: st')
  have wf: "wf_frame (st' r)" if "wf_frame (st r)"
  proof -
    let ?df = "(st r)\<lparr>columns := AList.update ''prediction_category'' categories (columns (st r))\<rparr>"
    have "wf_frame ?df"
      using that len(1) by (rule wf_frame_update)
    moreover have "length proba = nrows ?df"
      using len(2) by simp
    ultimately have "wf_frame (?df\<lparr>columns := AList.update ''prediction_proba_high'' proba (columns ?df)\<rparr>)"
      by (rule wf_frame_update)
    then show ?thesis by (simp add: st')
  qed
  show ?thesis
    using r len cols fresh others frame wf by blast
qed

text \<open>
  Witness for C10 as amended, with the example library: the training table has neither
  column, and \<^verbatim>\<open>predict\<close> returns its address with the two columns appended.
\<close>

theorem predict_frame_effect_witness:
  "train toy_sklearn BurnoutPredictor train_frame = (Inr (), trained)
   \<and> predict toy_sklearn trained 0 (store_of train_frame) =
     (Inr 0,
      store_of (train_frame\<lparr>columns := columns train_frame
        @ [(''prediction_category'', [Str ''Low'', Str ''Low'', Str ''Low'', Str ''Low'']),
           (''prediction_proba_high'', [Num 0, Num 0, Num 0, Num 0])]\<rparr>))
   \<and> ''prediction_category'' \<notin> fst ` set (columns (store_of train_frame 0))
   \<and> ''prediction_proba_high'' \<notin> fst ` set (columns (store_of train_frame 0))
   \<and> nrows (store_of (train_frame\<lparr>columns := columns train_frame
        @ [(''prediction_category'', [Str ''Low'', Str ''Low'', Str ''Low'', Str ''Low'']),
           (''prediction_proba_high'', [Num 0, Num 0, Num 0, Num 0])]\<rparr>) 0)
       = nrows (store_of train_frame 0)"
proof -
  note p = predict_trained_train_frame
  note t = predict_frame_effect [OF p]
  have f: "''prediction_category'' \<notin> fst ` set (columns (store_of train_frame 0))
      \<and> ''prediction_proba_high'' \<notin> fst ` set (columns (store_of train_frame 0))"
    by (simp add: store_of_def train_frame_def feature_frame_def BurnoutPredictor_def)
  show ?thesis
    using p t f train_train_frame by blast
qed

text \<open>
  Counterexample to C10 as stated. The table has the thirteen feature columns and a column
  \<open>prediction_category\<close> from an earlier scoring. \<^verbatim>\<open>predict\<close> returns, the values of
  that column have changed, and the frame has one more column, not two.
\<close>

theorem predict_overwrites_column:
  "train toy_sklearn BurnoutPredictor train_frame = (Inr (), trained)
   \<and> list_all (\<lambda>c. c \<in> fst ` set (columns scored_frame)) (feature_cols trained)
   \<and> fst (predict toy_sklearn trained 0 (store_of scored_frame)) = Inr 0
   \<and> map_of (columns (store_of scored_frame 0)) ''prediction_category''
       = Some [Str ''High'', Str ''High'', Str ''High'', Str ''High'']
   \<and> map_of (columns (snd (predict toy_sklearn trained 0 (store_of scored_frame)) 0))
         ''prediction_category''
       = Some [Str ''Low'', Str ''Low'', Str ''Low'', Str ''Low'']
   \<and> length (columns (snd (predict toy_sklearn trained 0 (store_of scored_frame)) 0))
       = length (columns (store_of scored_frame 0)) + 1"
proof -
  have "list_all (\<lambda>c. c \<in> fst ` set (columns scored_frame)) (feature_cols trained)
   \<and> fst (predict toy_sklearn trained 0 (store_of scored_frame)) = Inr 0
   \<and> map_of (columns (store_of scored_frame 0)) ''prediction_category''
       = Some [Str ''High'', Str ''High'', Str ''High'', Str ''High'']
   \<and> map_of (columns (snd (predict toy_sklearn trained 0 (store_of scored_frame)) 0))
         ''prediction_category''
       = Some [Str ''Low'', Str ''Low'', Str ''Low'', Str ''Low'']
   \<and> length (columns (snd (predict toy_sklearn trained 0 (store_of scored_frame)) 0))
       = length (columns (store_of scored_frame 0)) + 1"
    by (simp add: predict_def store_of_def trained_def scored_frame_def train_frame_def
        column_at_def toy_eval)
  then show ?thesis
    using train_train_frame by blast
qed

end
